theory Spec2Isabelle
  imports Main "HOL-Library.Sublist"
begin

section \<open>Constants and errors of \<open>mlflow/projects/docker.py\<close>\<close>

text \<open>
  The module-level literals of the source (lines 21-23). Python's leading underscore is
  dropped from the names.
\<close>

definition GENERATED_DOCKERFILE_NAME :: string where
  "GENERATED_DOCKERFILE_NAME = ''Dockerfile.mlflow-autogenerated''"

definition MLFLOW_DOCKER_TRACKING_DIR_PATH :: string where
  "MLFLOW_DOCKER_TRACKING_DIR_PATH = ''/mlflow/tmp/mlruns''"

definition PROJECT_TAR_ARCHIVE_NAME :: string where
  "PROJECT_TAR_ARCHIVE_NAME = ''mlflow-project-docker-build-context''"

text \<open>
  The exceptions that can cross the functions modelled here. All of them are subclasses of
  Python's \<open>Exception\<close>, so an \<open>except Exception\<close> clause catches each.
\<close>

datatype error =
    ValueError          \<comment> \<open>raised by \<open>urllib.parse.urlparse\<close> on a malformed URL\<close>
  | OSError             \<comment> \<open>any failing file-system call (also \<open>shutil.Error\<close>)\<close>
  | DockerException     \<comment> \<open>raised by the docker client\<close>
  | MlflowException     \<comment> \<open>raised by the tracking client or the credential provider\<close>

section \<open>Data and collaborators\<close>

text \<open>
  A path of the file system is the list of its components: \<open>/tmp/x\<close> is
  \<open>[''tmp'', ''x'']\<close>. This abstracts from the separator and from the spellings of one
  path (\<open>a//b\<close>, \<open>a/./b\<close>); a tracking URI stays a string.
\<close>

type_synonym fpath = "string list"

text \<open>
  The node at a path: a directory, a regular file with its bytes, or an archive file.
  An archive is kept as the tree it holds (member path to member), not as bytes: the
  constructor stands for the gzip-compressed tar stream that \<open>make_tarfile\<close> writes and
  that the build call decodes (\<open>encoding="gzip"\<close>). Symbolic links and permission bits are
  not modelled.
\<close>

datatype node = Dir | File string | TarGz "string list \<Rightarrow> node option"

text \<open>
  The three fields of \<open>urllib.parse.ParseResult\<close> that the module reads.
\<close>

record parse_result =
  scheme :: string
  netloc :: string
  path :: string

text \<open>The image handle returned by the docker client; the module reads its \<open>id\<close>.\<close>

record image =
  image_id :: string

text \<open>
  Everything the module imports and calls but does not define is a field of this record:
  the two \<open>urllib\<close> functions, the helpers of \<open>mlflow.utils.file_utils\<close> and
  \<open>mlflow.projects.utils\<close>, the git query, the docker client (\<open>docker.from_env\<close> and
  \<open>client.images.build\<close> with its arguments \<open>tag\<close>, \<open>forcerm\<close>, \<open>dockerfile\<close>,
  \<open>fileobj\<close>, \<open>custom_context\<close>, \<open>encoding\<close>), and the constants of other mlflow modules.
  A theorem that quantifies over the record holds for every behaviour of these
  collaborators. A dictionary is a map; \<open>urlparse\<close> and the credential provider can raise.
\<close>

record collaborators =
  urlparse :: "string \<Rightarrow> error + parse_result"
  url2pathname :: "string \<Rightarrow> string"
  path_to_local_sqlite_uri :: "string \<Rightarrow> string"
  path_to_local_file_uri :: "string \<Rightarrow> string"
  get_databricks_env_vars :: "string \<Rightarrow> error + (string \<rightharpoonup> string)"
  get_git_commit :: "fpath \<Rightarrow> string option"
  from_env :: "error + unit"
  images_build :: "string \<Rightarrow> bool \<Rightarrow> string \<Rightarrow> node \<Rightarrow> bool \<Rightarrow> string \<Rightarrow> error + image"
  TRACKING_URI_ENV_VAR :: string
  MLFLOW_DOCKER_WORKDIR_PATH :: string
  MLFLOW_DOCKER_IMAGE_URI :: string
  MLFLOW_DOCKER_IMAGE_ID :: string

section \<open>Image tag\<close>

text \<open>
  \<^verbatim>\<open>
  def _get_docker_image_uri(repository_uri, work_dir):
      repository_uri = repository_uri if repository_uri else "docker-project"
      git_commit = _get_git_commit(work_dir)
      version_string = ":" + git_commit[:7] if git_commit else ""
      return repository_uri + version_string
  \<close>
  \<open>_get_git_commit\<close> returns a string or \<open>None\<close>. The test \<open>if git_commit\<close> is
  Python's truth test: \<open>None\<close> and the empty string are both false.
\<close>

definition get_docker_image_uri :: "collaborators \<Rightarrow> string \<Rightarrow> fpath \<Rightarrow> string" where
  "get_docker_image_uri c repository_uri work_dir =
     (let repository_uri = (if repository_uri \<noteq> [] then repository_uri else ''docker-project'');
          git_commit = get_git_commit c work_dir;
          version_string =
            (case git_commit of
               None \<Rightarrow> []
             | Some g \<Rightarrow> if g \<noteq> [] then '':'' @ take 7 g else [])
      in repository_uri @ version_string)"

section \<open>Tracking URI translation\<close>

text \<open>
  \<^verbatim>\<open>
  def _get_local_uri_or_none(uri):
      if uri == "databricks":
          return None, None
      parsed_uri = urllib.parse.urlparse(uri)
      if not parsed_uri.netloc and parsed_uri.scheme in ("", "file", "sqlite"):
          path = urllib.request.url2pathname(parsed_uri.path)
          if parsed_uri.scheme == "sqlite":
              uri = file_utils.path_to_local_sqlite_uri(_MLFLOW_DOCKER_TRACKING_DIR_PATH)
          else:
              uri = file_utils.path_to_local_file_uri(_MLFLOW_DOCKER_TRACKING_DIR_PATH)
          return path, uri
      else:
          return None, None
  \<close>
  The function returns either the pair \<open>(None, None)\<close> or a pair of two strings; the
  model writes the first as \<open>None\<close> and the second as \<open>Some (path, uri)\<close>.
\<close>

definition get_local_uri_or_none ::
  "collaborators \<Rightarrow> string \<Rightarrow> error + (string \<times> string) option" where
  "get_local_uri_or_none c uri =
     (if uri = ''databricks'' then Inr None
      else case urlparse c uri of
        Inl e \<Rightarrow> Inl e
      | Inr parsed_uri \<Rightarrow>
          if netloc parsed_uri = [] \<and> scheme parsed_uri \<in> set [[], ''file'', ''sqlite''] then
            (let local_path = url2pathname c (path parsed_uri) in
             if scheme parsed_uri = ''sqlite''
             then Inr (Some (local_path, path_to_local_sqlite_uri c MLFLOW_DOCKER_TRACKING_DIR_PATH))
             else Inr (Some (local_path, path_to_local_file_uri c MLFLOW_DOCKER_TRACKING_DIR_PATH)))
          else Inr None)"

text \<open>
  \<^verbatim>\<open>
  def get_docker_tracking_cmd_and_envs(tracking_uri):
      cmds = []
      env_vars = dict()
      local_path, container_tracking_uri = _get_local_uri_or_none(tracking_uri)
      if local_path is not None:
          cmds = ["-v", "%s:%s" % (local_path, _MLFLOW_DOCKER_TRACKING_DIR_PATH)]
          env_vars[tracking._TRACKING_URI_ENV_VAR] = container_tracking_uri
      env_vars.update(get_databricks_env_vars(tracking_uri))
      return cmds, env_vars
  \<close>
  \<open>dict.update\<close> is map addition, the right operand winning on a common key.
\<close>

definition get_docker_tracking_cmd_and_envs ::
  "collaborators \<Rightarrow> string \<Rightarrow> error + (string list \<times> (string \<rightharpoonup> string))" where
  "get_docker_tracking_cmd_and_envs c tracking_uri =
     (case get_local_uri_or_none c tracking_uri of
        Inl e \<Rightarrow> Inl e
      | Inr r \<Rightarrow>
          (let (cmds, env_vars) =
                 (case r of
                    Some (local_path, container_tracking_uri) \<Rightarrow>
                      ([''-v'', local_path @ '':'' @ MLFLOW_DOCKER_TRACKING_DIR_PATH],
                       [TRACKING_URI_ENV_VAR c \<mapsto> container_tracking_uri])
                  | None \<Rightarrow> ([], Map.empty))
           in case get_databricks_env_vars c tracking_uri of
                Inl e \<Rightarrow> Inl e
              | Inr creds \<Rightarrow> Inr (cmds, env_vars ++ creds)))"

section \<open>A reference set of collaborators\<close>

text \<open>
  The theorems below hold for every value of the collaborators record. To run the module
  on concrete URIs, this section gives one instance: the two \<open>urllib\<close> functions as
  CPython defines them on a POSIX host, for the three fields the module reads.
  Strings are byte strings.

  \<open>std_urlparse\<close> follows \<open>urllib.parse.urlsplit\<close> and \<open>urlparse\<close> of CPython 3.9:
  a scheme is the text before the first colon when that text is not empty and consists of
  letters, digits, \<open>+\<close>, \<open>-\<close> and \<open>.\<close> only (it is lower-cased); a network location
  follows a leading \<open>//\<close> and runs to the first of \<open>/\<close>, \<open>?\<close>, \<open>#\<close>; unbalanced
  brackets in it raise \<open>ValueError\<close>; the fragment, the query and, for the schemes of
  \<open>uses_params\<close>, the parameters of the last path segment are cut off the path. The
  normalisation check that CPython runs on a network location outside ASCII is left out,
  and so is the removal of tab and newline characters that later releases add.
\<close>

definition scheme_chars :: string where
  "scheme_chars = ''abcdefghijklmnopqrstuvwxyzABCDEFGHIJKLMNOPQRSTUVWXYZ0123456789+-.''"

definition uses_params :: "string list" where
  "uses_params = [[], ''ftp'', ''hdl'', ''prospero'', ''http'', ''imap'', ''https'', ''shttp'',
                  ''rtsp'', ''rtspu'', ''sip'', ''sips'', ''mms'', ''sftp'', ''tel'']"

definition ascii_lower :: "char \<Rightarrow> char" where
  "ascii_lower ch =
     (case map_of (zip ''ABCDEFGHIJKLMNOPQRSTUVWXYZ'' ''abcdefghijklmnopqrstuvwxyz'') ch of
        Some l \<Rightarrow> l | None \<Rightarrow> ch)"

text \<open>
  \<open>_splitparams\<close>: the path without the parameters of its last segment, that is, cut at
  the first \<open>;\<close> after the last \<open>/\<close>.
\<close>

definition splitparams :: "string \<Rightarrow> string" where
  "splitparams url =
     (let last_segment = rev (takeWhile (\<lambda>ch. ch \<noteq> CHR ''/'') (rev url));
          front = take (length url - length last_segment) url
      in if CHR '';'' \<in> set last_segment
         then front @ takeWhile (\<lambda>ch. ch \<noteq> CHR '';'') last_segment
         else url)"

definition std_urlparse :: "string \<Rightarrow> error + parse_result" where
  "std_urlparse url =
     (let pre = takeWhile (\<lambda>ch. ch \<noteq> CHR '':'') url;
          has_scheme = (CHR '':'' \<in> set url \<and> pre \<noteq> [] \<and> (\<forall>ch \<in> set pre. ch \<in> set scheme_chars));
          sch = (if has_scheme then map ascii_lower pre else []);
          url = (if has_scheme then drop (length pre + 1) url else url);
          has_netloc = (take 2 url = ''//'');
          nl = (if has_netloc then takeWhile (\<lambda>ch. ch \<notin> set ''/?#'') (drop 2 url) else []);
          url = (if has_netloc then dropWhile (\<lambda>ch. ch \<notin> set ''/?#'') (drop 2 url) else url)
      in if (CHR ''['' \<in> set nl \<and> CHR '']'' \<notin> set nl) \<or> (CHR '']'' \<in> set nl \<and> CHR ''['' \<notin> set nl)
         then Inl ValueError
         else
           (let url = takeWhile (\<lambda>ch. ch \<noteq> CHR ''#'') url;
                url = takeWhile (\<lambda>ch. ch \<noteq> CHR ''?'') url;
                url = (if sch \<in> set uses_params \<and> CHR '';'' \<in> set url then splitparams url else url)
            in Inr \<lparr>scheme = sch, netloc = nl, path = url\<rparr>))"

text \<open>
  On POSIX \<open>urllib.request.url2pathname\<close> is \<open>urllib.parse.unquote\<close>: every \<open>%XX\<close>
  with two hexadecimal digits becomes the byte \<open>XX\<close>, anything else stays. (CPython
  then decodes the bytes as UTF-8 and replaces an invalid sequence; the byte strings here
  keep it.)
\<close>

definition hexval :: "char \<Rightarrow> nat option" where
  "hexval ch = map_of (zip ''0123456789abcdefABCDEF''
                 [0, 1, 2, 3, 4, 5, 6, 7, 8, 9, 10, 11, 12, 13, 14, 15, 10, 11, 12, 13, 14, 15]) ch"

fun unquote :: "string \<Rightarrow> string" where
  "unquote [] = []"
| "unquote [a] = [a]"
| "unquote [a, b] = [a, b]"
| "unquote (a # b # d # rest) =
     (case (a = CHR ''%'', hexval b, hexval d) of
        (True, Some h, Some l) \<Rightarrow> char_of (16 * h + l) # unquote rest
      | _ \<Rightarrow> a # unquote (b # d # rest))"

text \<open>
  Modelled from the spec: \<open>path_to_local_sqlite_uri\<close>, \<open>path_to_local_file_uri\<close>
  (\<open>mlflow.utils.file_utils\<close>), \<open>get_databricks_env_vars\<close> (\<open>mlflow.projects.utils\<close>),
  \<open>_get_git_commit\<close> and the constants of other mlflow modules are not part of the source
  file. The spec calls the results of the first two "a SQLite-style URI pointing at the
  container-internal path" and "a plain file URI pointing at the container-internal path",
  and lets the credential provider return "zero or more environment variable name/value
  pairs"; the instance prefixes the path with \<open>sqlite:///\<close> and \<open>file://\<close>, returns no
  credentials, finds no git revision and builds an image with a fixed identifier.
\<close>

definition reference_collaborators :: collaborators where
  "reference_collaborators =
     \<lparr>urlparse = std_urlparse,
      url2pathname = unquote,
      path_to_local_sqlite_uri = (\<lambda>p. ''sqlite:///'' @ p),
      path_to_local_file_uri = (\<lambda>p. ''file://'' @ p),
      get_databricks_env_vars = (\<lambda>uri. Inr Map.empty),
      get_git_commit = (\<lambda>work_dir. None),
      from_env = Inr (),
      images_build = (\<lambda>tag forcerm dockerfile fileobj custom_context encoding.
                        Inr \<lparr>image_id = ''sha256:0a1b2c''\<rparr>),
      TRACKING_URI_ENV_VAR = ''MLFLOW_TRACKING_URI'',
      MLFLOW_DOCKER_WORKDIR_PATH = ''/mlflow/projects/code/'',
      MLFLOW_DOCKER_IMAGE_URI = ''mlflow.docker.image.uri'',
      MLFLOW_DOCKER_IMAGE_ID = ''mlflow.docker.image.id''\<rparr>"

text \<open>
  Modelled from the spec: a credential provider that contributes variables ("zero or more
  environment variable name/value pairs, e.g., authentication tokens"), one of them under
  the tracking-URI key itself.
\<close>

definition credentialed_collaborators :: collaborators where
  "credentialed_collaborators =
     reference_collaborators
       \<lparr>get_databricks_env_vars :=
          (\<lambda>uri. if uri = ''https://tracking.example.com'' then Inr Map.empty
                 else Inr [''MLFLOW_TRACKING_URI'' \<mapsto> ''databricks'',
                           ''DATABRICKS_TOKEN'' \<mapsto> ''dapi-example''])\<rparr>"

text \<open>Projections of the translator's result, for stating its value at a concrete URI.\<close>

definition result_cmds :: "error + (string list \<times> (string \<rightharpoonup> string)) \<Rightarrow> string list option" where
  "result_cmds r = (case r of Inl e \<Rightarrow> None | Inr (cmds, env_vars) \<Rightarrow> Some cmds)"

definition result_env ::
  "error + (string list \<times> (string \<rightharpoonup> string)) \<Rightarrow> string \<Rightarrow> string option option" where
  "result_env r k = (case r of Inl e \<Rightarrow> None | Inr (cmds, env_vars) \<Rightarrow> Some (env_vars k))"

section \<open>The file system, the tracking store and the log\<close>

text \<open>
  The mutable state the module touches: the file system (a map from paths to nodes), the
  directory of temporary files with the names its random generator will propose next
  (\<open>tempfile\<close>), the tags of the tracking server (run id and key to value) and the log
  records (message and argument).
\<close>

record world =
  fs :: "fpath \<Rightarrow> node option"
  tempdir :: fpath
  names :: "string list"
  tags :: "string \<times> string \<Rightarrow> string option"
  log :: "(string \<times> string) list"

text \<open>
  A call on the operating system or on a server can fail for reasons outside the state
  modelled here (permissions, a full disk, an unreachable server). A value of the record
  below decides, for one run, which calls fail and what a failing call leaves behind:
  \<^item> \<open>copytree\<close> raises after copying the paths selected by the predicate;
  \<^item> writing the manifest fails at \<open>open\<close>, or at \<open>write\<close> after some bytes;
  \<^item> \<open>make_tarfile\<close> raises leaving the given bytes in the output file;
  \<^item> \<open>rmtree\<close> raises after removing the selected paths below the directory (the
    directory itself is removed last, so it is still there when \<open>rmtree\<close> raises);
  \<^item> the other calls fail without an effect.
\<close>

datatype write_fault = NoWriteFault | OpenFails | WriteFails string

record faults =
  mkdtemp_fault :: bool
  copytree_fault :: "(fpath \<Rightarrow> bool) option"
  write_fault :: write_fault
  mkstemp_fault :: bool
  make_tarfile_fault :: "string option"
  rmtree_fault :: "(fpath \<Rightarrow> bool) option"
  open_fault :: bool
  remove_fault :: bool
  set_tag_fault :: "string \<Rightarrow> bool"

text \<open>
  A statement that reads and changes the world and returns a value or raises. Sequencing
  stops at the first exception; \<open>try: ... finally:\<close> runs the handler on every exit and
  lets an exception of the handler replace the outcome of the body; \<open>try: ... except
  Exception:\<close> runs the handler when the body raises (every \<open>error\<close> is an \<open>Exception\<close>).
\<close>

type_synonym 'a io = "world \<Rightarrow> (error + 'a) \<times> world"

definition io_return :: "'a \<Rightarrow> 'a io" where
  "io_return a = (\<lambda>w. (Inr a, w))"

definition io_lift :: "error + 'a \<Rightarrow> 'a io" where
  "io_lift r = (\<lambda>w. (r, w))"

definition io_bind :: "'a io \<Rightarrow> ('a \<Rightarrow> 'b io) \<Rightarrow> 'b io" where
  "io_bind m f = (\<lambda>w. case m w of (Inl e, w') \<Rightarrow> (Inl e, w') | (Inr a, w') \<Rightarrow> f a w')"

definition io_finally :: "'a io \<Rightarrow> unit io \<Rightarrow> 'a io" where
  "io_finally m h =
     (\<lambda>w. case m w of (r, w') \<Rightarrow>
        (case h w' of (Inl e, w'') \<Rightarrow> (Inl e, w'') | (Inr u, w'') \<Rightarrow> (r, w'')))"

definition io_catch :: "unit io \<Rightarrow> (error \<Rightarrow> unit io) \<Rightarrow> unit io" where
  "io_catch m h = (\<lambda>w. case m w of (Inl e, w') \<Rightarrow> h e w' | (Inr u, w') \<Rightarrow> (Inr u, w'))"

subsection \<open>Library calls\<close>

text \<open>
  \<open>tempfile.mkdtemp\<close> and \<open>tempfile.mkstemp\<close> try the proposed names in turn, skip a name
  that exists, and create the directory (the empty file) under the first free name; they
  raise when the names run out.
\<close>

fun first_fresh :: "(fpath \<Rightarrow> node option) \<Rightarrow> fpath \<Rightarrow> string list \<Rightarrow> (string \<times> string list) option" where
  "first_fresh f d [] = None"
| "first_fresh f d (n # ns) = (if f (d @ [n]) = None then Some (n, ns) else first_fresh f d ns)"

definition mkdtemp :: "bool \<Rightarrow> fpath io" where
  "mkdtemp fault w =
     (case first_fresh (fs w) (tempdir w) (names w) of
        None \<Rightarrow> (Inl OSError, w\<lparr>names := []\<rparr>)
      | Some (n, ns) \<Rightarrow>
          if fault \<or> fs w (tempdir w) \<noteq> Some Dir then (Inl OSError, w\<lparr>names := ns\<rparr>)
          else (Inr (tempdir w @ [n]), w\<lparr>fs := (fs w)(tempdir w @ [n] \<mapsto> Dir), names := ns\<rparr>))"

definition mkstemp :: "bool \<Rightarrow> fpath io" where
  "mkstemp fault w =
     (case first_fresh (fs w) (tempdir w) (names w) of
        None \<Rightarrow> (Inl OSError, w\<lparr>names := []\<rparr>)
      | Some (n, ns) \<Rightarrow>
          if fault \<or> fs w (tempdir w) \<noteq> Some Dir then (Inl OSError, w\<lparr>names := ns\<rparr>)
          else (Inr (tempdir w @ [n]), w\<lparr>fs := (fs w)(tempdir w @ [n] \<mapsto> File []), names := ns\<rparr>))"

text \<open>
  \<open>shutil.copytree(src, dst)\<close> raises when \<open>src\<close> is not a directory or \<open>dst\<close> exists;
  otherwise every path below \<open>dst\<close> becomes what the same path below \<open>src\<close> is.
  When \<open>dst\<close> lies inside \<open>src\<close> the copy would contain itself: CPython descends until a
  path-length or recursion limit raises; the model raises with \<open>dst\<close> created.
\<close>

definition copytree :: "(fpath \<Rightarrow> bool) option \<Rightarrow> fpath \<Rightarrow> fpath \<Rightarrow> unit io" where
  "copytree fault src dst w =
     (let copied = (\<lambda>p. if prefix dst p then fs w (src @ drop (length dst) p) else fs w p) in
      if fs w src \<noteq> Some Dir \<or> fs w dst \<noteq> None then (Inl OSError, w)
      else if prefix src dst then (Inl OSError, w\<lparr>fs := (fs w)(dst \<mapsto> Dir)\<rparr>)
      else case fault of
             None \<Rightarrow> (Inr (), w\<lparr>fs := copied\<rparr>)
           | Some reached \<Rightarrow>
               (Inl OSError, w\<lparr>fs := (\<lambda>p. if reached p then copied p else fs w p)\<rparr>))"

text \<open>
  \<open>with open(p, "w") as handle: handle.write(contents)\<close> needs the parent of \<open>p\<close> to be a
  directory and \<open>p\<close> not to be one; it replaces a file that is there.
\<close>

definition write_text :: "write_fault \<Rightarrow> fpath \<Rightarrow> string \<Rightarrow> unit io" where
  "write_text fault p contents w =
     (if p = [] \<or> fs w (butlast p) \<noteq> Some Dir \<or> fs w p = Some Dir then (Inl OSError, w)
      else case fault of
             NoWriteFault \<Rightarrow> (Inr (), w\<lparr>fs := (fs w)(p \<mapsto> File contents)\<rparr>)
           | OpenFails \<Rightarrow> (Inl OSError, w)
           | WriteFails written \<Rightarrow> (Inl OSError, w\<lparr>fs := (fs w)(p \<mapsto> File written)\<rparr>))"

text \<open>
  Modelled from the spec: \<open>make_tarfile\<close> of \<open>mlflow.utils.file_utils\<close> is not part of the
  source file. The spec has it archive the tree "into a new temporary file using a standard
  tar format", as a "gzip-compatible stream", and describes the archive as "containing a
  root directory (fixed literal name) with the full contents of the source working tree
  plus one generated file". The call site passes the tree as \<open>source_dir\<close> and the root's
  name as \<open>archive_name\<close>; the build call and the generated manifest of
  \<open>build_docker_image\<close> address the archive's content below that name. So the archive
  written to \<open>output_filename\<close> has, below the single root entry \<open>archive_name\<close>, every
  path that exists below \<open>source_dir\<close>.
\<close>

definition archive_of :: "(fpath \<Rightarrow> node option) \<Rightarrow> fpath \<Rightarrow> string \<Rightarrow> (fpath \<Rightarrow> node option)" where
  "archive_of f source_dir archive_name =
     (\<lambda>p. case p of
             [] \<Rightarrow> None
           | r # rel \<Rightarrow> if r = archive_name then f (source_dir @ rel) else None)"

definition make_tarfile :: "string option \<Rightarrow> fpath \<Rightarrow> fpath \<Rightarrow> string \<Rightarrow> unit io" where
  "make_tarfile fault output_filename source_dir archive_name w =
     (if fs w source_dir = None \<or> fs w output_filename = Some Dir then (Inl OSError, w)
      else case fault of
             None \<Rightarrow>
               (Inr (), w\<lparr>fs := (fs w)(output_filename \<mapsto>
                                     TarGz (archive_of (fs w) source_dir archive_name))\<rparr>)
           | Some written \<Rightarrow>
               (Inl OSError, w\<lparr>fs := (fs w)(output_filename \<mapsto> File written)\<rparr>))"

text \<open>
  \<open>shutil.rmtree(d)\<close> raises when \<open>d\<close> is not a directory; otherwise it removes \<open>d\<close> and
  everything below it. It is called without \<open>ignore_errors\<close>, so the first failing removal
  raises and the rest, \<open>d\<close> included, stays.
\<close>

definition rmtree :: "(fpath \<Rightarrow> bool) option \<Rightarrow> fpath \<Rightarrow> unit io" where
  "rmtree fault d w =
     (if fs w d \<noteq> Some Dir then (Inl OSError, w)
      else case fault of
             None \<Rightarrow> (Inr (), w\<lparr>fs := (\<lambda>p. if prefix d p then None else fs w p)\<rparr>)
           | Some removed \<Rightarrow>
               (Inl OSError,
                w\<lparr>fs := (\<lambda>p. if strict_prefix d p \<and> removed p then None else fs w p)\<rparr>))"

text \<open>\<open>open(p, "rb")\<close> gives the content of the file at \<open>p\<close>; \<open>os.remove(p)\<close> deletes it.\<close>

definition open_rb :: "bool \<Rightarrow> fpath \<Rightarrow> node io" where
  "open_rb fault p w =
     (case fs w p of
        None \<Rightarrow> (Inl OSError, w)
      | Some Dir \<Rightarrow> (Inl OSError, w)
      | Some content \<Rightarrow> if fault then (Inl OSError, w) else (Inr content, w))"

definition os_remove :: "bool \<Rightarrow> fpath \<Rightarrow> unit io" where
  "os_remove fault p w =
     (if fault \<or> fs w p = None \<or> fs w p = Some Dir then (Inl OSError, w)
      else (Inr (), w\<lparr>fs := (fs w)(p := None)\<rparr>))"

text \<open>
  \<open>tracking.MlflowClient().set_tag(run_id, key, value)\<close> and \<open>_logger.info(msg, arg)\<close>.
\<close>

definition set_tag :: "(string \<Rightarrow> bool) \<Rightarrow> string \<Rightarrow> string \<Rightarrow> string \<Rightarrow> unit io" where
  "set_tag fault run_id key val w =
     (if fault key then (Inl MlflowException, w)
      else (Inr (), w\<lparr>tags := (tags w)((run_id, key) \<mapsto> val)\<rparr>))"

definition logger_info :: "string \<Rightarrow> string \<Rightarrow> unit io" where
  "logger_info msg arg w = (Inr (), w\<lparr>log := log w @ [(msg, arg)]\<rparr>)"

definition path_str :: "fpath \<Rightarrow> string" where
  "path_str p = concat (map (\<lambda>n. CHR ''/'' # n) p)"

section \<open>Build context\<close>

text \<open>
  \<^verbatim>\<open>
  def _create_docker_build_ctx(work_dir, dockerfile_contents):
      directory = tempfile.mkdtemp()
      try:
          dst_path = os.path.join(directory, "mlflow-project-contents")
          shutil.copytree(src=work_dir, dst=dst_path)
          with open(os.path.join(dst_path, _GENERATED_DOCKERFILE_NAME), "w") as handle:
              handle.write(dockerfile_contents)
          _, result_path = tempfile.mkstemp()
          file_utils.make_tarfile(
              output_filename=result_path, source_dir=dst_path,
              archive_name=_PROJECT_TAR_ARCHIVE_NAME
          )
      finally:
          shutil.rmtree(directory)
      return result_path
  \<close>
  \<open>os.path.join\<close> of a path and a name appends the name as the last component.
\<close>

definition create_docker_build_ctx :: "faults \<Rightarrow> fpath \<Rightarrow> string \<Rightarrow> fpath io" where
  "create_docker_build_ctx ft work_dir dockerfile_contents =
     io_bind (mkdtemp (mkdtemp_fault ft)) (\<lambda>directory.
       io_finally
         (let dst_path = directory @ [''mlflow-project-contents''] in
          io_bind (copytree (copytree_fault ft) work_dir dst_path) (\<lambda>u.
          io_bind (write_text (write_fault ft) (dst_path @ [GENERATED_DOCKERFILE_NAME])
                     dockerfile_contents) (\<lambda>u.
          io_bind (mkstemp (mkstemp_fault ft)) (\<lambda>result_path.
          io_bind (make_tarfile (make_tarfile_fault ft) result_path dst_path
                     PROJECT_TAR_ARCHIVE_NAME) (\<lambda>u.
          io_return result_path)))))
         (rmtree (rmtree_fault ft) directory))"

section \<open>Image build\<close>

text \<open>
  \<^verbatim>\<open>
  def build_docker_image(work_dir, repository_uri, base_image, run_id):
      image_uri = _get_docker_image_uri(repository_uri=repository_uri, work_dir=work_dir)
      dockerfile = (
          "FROM {imagename}\n" "COPY {build_context_path}/ {workdir}\n" "WORKDIR {workdir}\n"
      ).format(
          imagename=base_image,
          build_context_path=_PROJECT_TAR_ARCHIVE_NAME,
          workdir=MLFLOW_DOCKER_WORKDIR_PATH,
      )
      build_ctx_path = _create_docker_build_ctx(work_dir, dockerfile)
      with open(build_ctx_path, "rb") as docker_build_ctx:
          _logger.info("=== Building docker image %s ===", image_uri)
          client = docker.from_env()
          image, _ = client.images.build(
              tag=image_uri,
              forcerm=True,
              dockerfile=posixpath.join(_PROJECT_TAR_ARCHIVE_NAME, _GENERATED_DOCKERFILE_NAME),
              fileobj=docker_build_ctx,
              custom_context=True,
              encoding="gzip",
          )
      try:
          os.remove(build_ctx_path)
      except Exception:
          _logger.info("Temporary docker context file %s was not deleted.", build_ctx_path)
      tracking.MlflowClient().set_tag(run_id, MLFLOW_DOCKER_IMAGE_URI, image_uri)
      tracking.MlflowClient().set_tag(run_id, MLFLOW_DOCKER_IMAGE_ID, image.id)
      return image
  \<close>
  \<open>posixpath.join\<close> of the two literals puts a slash between them. The text that
  \<open>format\<close> produces for the local variable \<open>dockerfile\<close> is \<open>dockerfile_text\<close>.
\<close>

definition dockerfile_text :: "collaborators \<Rightarrow> string \<Rightarrow> string" where
  "dockerfile_text c base_image =
     ''FROM '' @ base_image @ [CHR 0x0A] @
     ''COPY '' @ PROJECT_TAR_ARCHIVE_NAME @ ''/ '' @ MLFLOW_DOCKER_WORKDIR_PATH c @ [CHR 0x0A] @
     ''WORKDIR '' @ MLFLOW_DOCKER_WORKDIR_PATH c @ [CHR 0x0A]"

definition build_docker_image ::
  "collaborators \<Rightarrow> faults \<Rightarrow> fpath \<Rightarrow> string \<Rightarrow> string \<Rightarrow> string \<Rightarrow> image io" where
  "build_docker_image c ft work_dir repository_uri base_image run_id =
     (let image_uri = get_docker_image_uri c repository_uri work_dir;
          dockerfile = dockerfile_text c base_image
      in
      io_bind (create_docker_build_ctx ft work_dir dockerfile) (\<lambda>build_ctx_path.
      io_bind (open_rb (open_fault ft) build_ctx_path) (\<lambda>docker_build_ctx.
      io_bind (logger_info ''=== Building docker image %s ==='' image_uri) (\<lambda>u.
      io_bind (io_lift (from_env c)) (\<lambda>client.
      io_bind (io_lift (images_build c image_uri True
                 (PROJECT_TAR_ARCHIVE_NAME @ ''/'' @ GENERATED_DOCKERFILE_NAME)
                 docker_build_ctx True ''gzip'')) (\<lambda>image.
      io_bind (io_catch (os_remove (remove_fault ft) build_ctx_path)
                 (\<lambda>e. logger_info ''Temporary docker context file %s was not deleted.''
                        (path_str build_ctx_path))) (\<lambda>u.
      io_bind (set_tag (set_tag_fault ft) run_id (MLFLOW_DOCKER_IMAGE_URI c) image_uri) (\<lambda>u.
      io_bind (set_tag (set_tag_fault ft) run_id (MLFLOW_DOCKER_IMAGE_ID c) (image_id image)) (\<lambda>u.
      io_return image)))))))))"

text \<open>A run without injected failures, and a small world to run the module in.\<close>

definition no_faults :: faults where
  "no_faults =
     \<lparr>mkdtemp_fault = False, copytree_fault = None, write_fault = NoWriteFault,
      mkstemp_fault = False, make_tarfile_fault = None, rmtree_fault = None,
      open_fault = False, remove_fault = False, set_tag_fault = (\<lambda>key. False)\<rparr>"

definition example_world :: world where
  "example_world =
     \<lparr>fs = [[] \<mapsto> Dir,
            [''tmp''] \<mapsto> Dir,
            [''proj''] \<mapsto> Dir,
            [''proj'', ''MLproject''] \<mapsto> File ''name: demo'',
            [''proj'', ''src''] \<mapsto> Dir,
            [''proj'', ''src'', ''train.py''] \<mapsto> File ''print(1)''],
      tempdir = [''tmp''],
      names = [''tmpa'', ''tmpb'', ''tmpc'', ''tmpd''],
      tags = Map.empty,
      log = []\<rparr>"

text \<open>
  A member of the archive stored at a path (\<open>None\<close> when there is no archive there), and
  the property of a file system that every path that exists lies in directories that exist.
\<close>

definition archive_member :: "world \<Rightarrow> fpath \<Rightarrow> fpath \<Rightarrow> node option" where
  "archive_member w p q = (case fs w p of Some (TarGz a) \<Rightarrow> a q | _ \<Rightarrow> None)"

definition tree_closed :: "(fpath \<Rightarrow> node option) \<Rightarrow> bool" where
  "tree_closed f = (\<forall>p q. f (p @ q) \<noteq> None \<longrightarrow> f p \<noteq> None)"

section \<open>Evaluating the reference collaborators\<close>

lemmas std_simps = std_urlparse_def scheme_chars_def uses_params_def ascii_lower_def
  splitparams_def Let_def reference_collaborators_def

section \<open>Properties of the image tag\<close>

text \<open>
  C3. The derived image tag is the repository URI, or \<open>docker-project\<close> when the repository
  URI is empty, followed by nothing when no revision is available and by a colon and the
  first 7 characters of the revision identifier when one is (all of it when it has fewer
  than 7 characters). A revision is available when \<open>_get_git_commit\<close> returns a value that
  passes Python's truth test: \<open>None\<close> and the empty string both count as no revision.
\<close>

theorem docker_image_uri_tag:
  "let base = (if repository_uri = [] then ''docker-project'' else repository_uri);
       tag = get_docker_image_uri c repository_uri work_dir
   in (get_git_commit c work_dir = None \<longrightarrow> tag = base) \<and>
      (get_git_commit c work_dir = Some [] \<longrightarrow> tag = base) \<and>
      (\<forall>g. get_git_commit c work_dir = Some g \<and> g \<noteq> [] \<longrightarrow>
           tag = base @ '':'' @ take 7 g \<and>
           length (take 7 g) = min 7 (length g) \<and>
           (length g < 7 \<longrightarrow> take 7 g = g))"
  by (auto simp: get_docker_image_uri_def Let_def)

theorem docker_image_uri_tag_witness:
  "get_git_commit (reference_collaborators\<lparr>get_git_commit := \<lambda>d. Some ''0123456789abcdef''\<rparr>) [''w'']
     = Some ''0123456789abcdef'' \<and>
   get_docker_image_uri (reference_collaborators\<lparr>get_git_commit := \<lambda>d. Some ''0123456789abcdef''\<rparr>)
     [] [''w''] = ''docker-project:0123456''"
  using docker_image_uri_tag
    [of "[]" "reference_collaborators\<lparr>get_git_commit := \<lambda>d. Some ''0123456789abcdef''\<rparr>" "[''w'']"]
  by (simp add: reference_collaborators_def Let_def)

section \<open>Properties of the tracking URI translation\<close>

text \<open>
  C1. For a tracking URI other than \<open>databricks\<close> that parses with no network location and
  with the scheme empty, \<open>file\<close> or \<open>sqlite\<close>, the translator returns exactly the mount
  pair \<open>-v\<close>, \<open>decoded path:/mlflow/tmp/mlruns\<close>, and sets the tracking-URI variable to the
  SQLite URI of \<open>/mlflow/tmp/mlruns\<close> when the scheme is \<open>sqlite\<close> and to its file URI
  otherwise; the credential variables are merged into the mapping afterwards. The call
  returns when the credential provider does.
\<close>

theorem local_uri_mount_and_env:
  assumes "tracking_uri \<noteq> ''databricks''"
    and "urlparse c tracking_uri = Inr p"
    and "netloc p = []"
    and "scheme p = [] \<or> scheme p = ''file'' \<or> scheme p = ''sqlite''"
    and "get_databricks_env_vars c tracking_uri = Inr creds"
  shows "\<exists>env_vars.
           get_docker_tracking_cmd_and_envs c tracking_uri =
             Inr ([''-v'', url2pathname c (path p) @ '':/mlflow/tmp/mlruns''], env_vars) \<and>
           env_vars =
             [TRACKING_URI_ENV_VAR c \<mapsto>
                (if scheme p = ''sqlite'' then path_to_local_sqlite_uri c ''/mlflow/tmp/mlruns''
                 else path_to_local_file_uri c ''/mlflow/tmp/mlruns'')] ++ creds \<and>
           (creds (TRACKING_URI_ENV_VAR c) = None \<longrightarrow>
              env_vars (TRACKING_URI_ENV_VAR c) =
                Some (if scheme p = ''sqlite'' then path_to_local_sqlite_uri c ''/mlflow/tmp/mlruns''
                      else path_to_local_file_uri c ''/mlflow/tmp/mlruns''))"
  using assms
  by (auto simp: get_docker_tracking_cmd_and_envs_def get_local_uri_or_none_def
        MLFLOW_DOCKER_TRACKING_DIR_PATH_def Let_def map_add_def)

theorem local_uri_mount_and_env_witness:
  "''sqlite:///tmp/mlruns.db'' \<noteq> ''databricks'' \<and>
   urlparse reference_collaborators ''sqlite:///tmp/mlruns.db''
     = Inr \<lparr>scheme = ''sqlite'', netloc = [], path = ''/tmp/mlruns.db''\<rparr> \<and>
   get_databricks_env_vars reference_collaborators ''sqlite:///tmp/mlruns.db'' = Inr Map.empty \<and>
   result_cmds (get_docker_tracking_cmd_and_envs reference_collaborators ''sqlite:///tmp/mlruns.db'')
     = Some [''-v'', ''/tmp/mlruns.db:/mlflow/tmp/mlruns''] \<and>
   result_env (get_docker_tracking_cmd_and_envs reference_collaborators ''sqlite:///tmp/mlruns.db'')
     ''MLFLOW_TRACKING_URI'' = Some (Some ''sqlite:////mlflow/tmp/mlruns'')"
proof -
  have p: "urlparse reference_collaborators ''sqlite:///tmp/mlruns.db''
     = Inr \<lparr>scheme = ''sqlite'', netloc = [], path = ''/tmp/mlruns.db''\<rparr>"
    by (simp add: std_simps)
  have cr: "get_databricks_env_vars reference_collaborators ''sqlite:///tmp/mlruns.db'' = Inr Map.empty"
    by (simp add: reference_collaborators_def)
  show ?thesis
    using local_uri_mount_and_env [OF _ p _ _ cr] p
    by (auto simp: result_cmds_def result_env_def reference_collaborators_def)
qed

text \<open>
  C4. For the URI \<open>databricks\<close>, and for a URI that parses with a network location or with
  a scheme other than empty, \<open>file\<close> and \<open>sqlite\<close>, the translator returns no mount
  argument and does not set the tracking-URI variable: the returned mapping is the
  credential provider's mapping and nothing else.
\<close>

theorem nonlocal_uri_no_mount:
  assumes "tracking_uri = ''databricks'' \<or>
           (\<exists>p. urlparse c tracking_uri = Inr p \<and>
                (netloc p \<noteq> [] \<or>
                 (scheme p \<noteq> [] \<and> scheme p \<noteq> ''file'' \<and> scheme p \<noteq> ''sqlite'')))"
    and "get_databricks_env_vars c tracking_uri = Inr creds"
  shows "get_docker_tracking_cmd_and_envs c tracking_uri = Inr ([], creds)"
  using assms
  by (auto simp: get_docker_tracking_cmd_and_envs_def get_local_uri_or_none_def)

theorem nonlocal_uri_no_mount_witness:
  "urlparse credentialed_collaborators ''https://tracking.example.com''
     = Inr \<lparr>scheme = ''https'', netloc = ''tracking.example.com'', path = []\<rparr> \<and>
   result_cmds (get_docker_tracking_cmd_and_envs credentialed_collaborators
                  ''https://tracking.example.com'') = Some [] \<and>
   result_env (get_docker_tracking_cmd_and_envs credentialed_collaborators
                 ''https://tracking.example.com'') ''MLFLOW_TRACKING_URI'' = Some None \<and>
   result_cmds (get_docker_tracking_cmd_and_envs credentialed_collaborators ''databricks'')
     = Some [] \<and>
   result_env (get_docker_tracking_cmd_and_envs credentialed_collaborators ''databricks'')
     ''DATABRICKS_TOKEN'' = Some (Some ''dapi-example'')"
proof -
  have p: "urlparse credentialed_collaborators ''https://tracking.example.com''
     = Inr \<lparr>scheme = ''https'', netloc = ''tracking.example.com'', path = []\<rparr>"
    by (simp add: std_simps credentialed_collaborators_def)
  have remote: "get_docker_tracking_cmd_and_envs credentialed_collaborators
      ''https://tracking.example.com'' = Inr ([], Map.empty)"
    by (rule nonlocal_uri_no_mount) (simp_all add: p, simp add: credentialed_collaborators_def)
  have managed: "get_docker_tracking_cmd_and_envs credentialed_collaborators ''databricks''
      = Inr ([], [''MLFLOW_TRACKING_URI'' \<mapsto> ''databricks'', ''DATABRICKS_TOKEN'' \<mapsto> ''dapi-example''])"
    by (rule nonlocal_uri_no_mount) (simp_all add: credentialed_collaborators_def)
  show ?thesis
    by (simp add: p remote managed result_cmds_def result_env_def)
qed

text \<open>
  C6. Whatever the tracking URI, every name/value pair that the credential provider returns
  for it is in the returned mapping: each result of the translator contains the provider's
  mapping, and the translator returns whenever the provider does and the URI is
  \<open>databricks\<close> or parses.
\<close>

theorem credentials_always_merged:
  "(\<forall>cmds env_vars.
       get_docker_tracking_cmd_and_envs c tracking_uri = Inr (cmds, env_vars) \<longrightarrow>
       (\<exists>creds. get_databricks_env_vars c tracking_uri = Inr creds \<and>
                (\<forall>k v. creds k = Some v \<longrightarrow> env_vars k = Some v))) \<and>
   (\<forall>creds.
       get_databricks_env_vars c tracking_uri = Inr creds \<and>
       (tracking_uri = ''databricks'' \<or> (\<exists>p. urlparse c tracking_uri = Inr p)) \<longrightarrow>
       (\<exists>cmds env_vars. get_docker_tracking_cmd_and_envs c tracking_uri = Inr (cmds, env_vars)))"
  by (auto simp: get_docker_tracking_cmd_and_envs_def get_local_uri_or_none_def Let_def
        map_add_def split: sum.splits option.splits if_splits)

theorem credentials_always_merged_witness:
  "result_env (get_docker_tracking_cmd_and_envs
                 (reference_collaborators
                    \<lparr>get_databricks_env_vars := \<lambda>uri. Inr [''DATABRICKS_HOST'' \<mapsto> ''https://h'']\<rparr>)
                 ''file:///home/user/mlruns'') ''DATABRICKS_HOST''
     = Some (Some ''https://h'')"
proof -
  let ?c = "reference_collaborators
              \<lparr>get_databricks_env_vars := \<lambda>uri. Inr [''DATABRICKS_HOST'' \<mapsto> ''https://h'']\<rparr>"
  let ?uri = "''file:///home/user/mlruns''"
  have p: "urlparse ?c ?uri = Inr \<lparr>scheme = ''file'', netloc = [], path = ''/home/user/mlruns''\<rparr>"
    by (simp add: std_simps)
  have cr: "get_databricks_env_vars ?c ?uri = Inr [''DATABRICKS_HOST'' \<mapsto> ''https://h'']"
    by (simp add: reference_collaborators_def)
  from credentials_always_merged [of ?c ?uri] p cr
  obtain cmds env_vars where
    r: "get_docker_tracking_cmd_and_envs ?c ?uri = Inr (cmds, env_vars)"
    by blast
  with credentials_always_merged [of ?c ?uri] cr
  have "env_vars ''DATABRICKS_HOST'' = Some ''https://h''"
    by auto
  with r show ?thesis
    by (simp add: result_env_def)
qed

text \<open>
  C10. When the credential provider's mapping has the tracking-URI key itself, the value it
  gives replaces the rewritten container-internal URI in the result: on the local branch
  the mount pair is still returned, and the variable holds the provider's value, because
  the provider's mapping is merged after the variable is set.
\<close>

theorem credentials_override_tracking_uri:
  assumes "tracking_uri \<noteq> ''databricks''"
    and "urlparse c tracking_uri = Inr p"
    and "netloc p = []"
    and "scheme p = [] \<or> scheme p = ''file'' \<or> scheme p = ''sqlite''"
    and "get_databricks_env_vars c tracking_uri = Inr creds"
    and "creds (TRACKING_URI_ENV_VAR c) = Some v"
  shows "\<exists>env_vars.
           get_docker_tracking_cmd_and_envs c tracking_uri =
             Inr ([''-v'', url2pathname c (path p) @ '':/mlflow/tmp/mlruns''], env_vars) \<and>
           env_vars (TRACKING_URI_ENV_VAR c) = Some v"
  using assms
  by (auto simp: get_docker_tracking_cmd_and_envs_def get_local_uri_or_none_def
        MLFLOW_DOCKER_TRACKING_DIR_PATH_def Let_def map_add_def)

theorem credentials_override_tracking_uri_witness:
  "urlparse credentialed_collaborators ''/home/user/mlruns''
     = Inr \<lparr>scheme = [], netloc = [], path = ''/home/user/mlruns''\<rparr> \<and>
   path_to_local_file_uri credentialed_collaborators ''/mlflow/tmp/mlruns''
     = ''file:///mlflow/tmp/mlruns'' \<and>
   result_cmds (get_docker_tracking_cmd_and_envs credentialed_collaborators ''/home/user/mlruns'')
     = Some [''-v'', ''/home/user/mlruns:/mlflow/tmp/mlruns''] \<and>
   result_env (get_docker_tracking_cmd_and_envs credentialed_collaborators ''/home/user/mlruns'')
     ''MLFLOW_TRACKING_URI'' = Some (Some ''databricks'')"
proof -
  have p: "urlparse credentialed_collaborators ''/home/user/mlruns''
     = Inr \<lparr>scheme = [], netloc = [], path = ''/home/user/mlruns''\<rparr>"
    by (simp add: std_simps credentialed_collaborators_def)
  have cr: "get_databricks_env_vars credentialed_collaborators ''/home/user/mlruns''
     = Inr [''MLFLOW_TRACKING_URI'' \<mapsto> ''databricks'', ''DATABRICKS_TOKEN'' \<mapsto> ''dapi-example'']"
    by (simp add: credentialed_collaborators_def)
  have "\<exists>env_vars.
      get_docker_tracking_cmd_and_envs credentialed_collaborators ''/home/user/mlruns'' =
        Inr ([''-v'', url2pathname credentialed_collaborators
                (path \<lparr>scheme = [], netloc = [], path = ''/home/user/mlruns''\<rparr>)
              @ '':/mlflow/tmp/mlruns''], env_vars) \<and>
      env_vars (TRACKING_URI_ENV_VAR credentialed_collaborators) = Some ''databricks''"
    by (rule credentials_override_tracking_uri [OF _ p _ _ cr])
       (simp_all add: credentialed_collaborators_def reference_collaborators_def)
  then show ?thesis
    using p
    by (auto simp: result_cmds_def result_env_def credentialed_collaborators_def
          reference_collaborators_def)
qed

text \<open>
  C9 as stated fails at the bare path \<open>databricks\<close>: it has no scheme and no network
  location, yet the translator returns no mount and sets no variable.
\<close>

theorem bare_path_databricks_counterexample:
  "urlparse reference_collaborators ''databricks''
     = Inr \<lparr>scheme = [], netloc = [], path = ''databricks''\<rparr> \<and>
   result_cmds (get_docker_tracking_cmd_and_envs reference_collaborators ''databricks'')
     = Some [] \<and>
   result_env (get_docker_tracking_cmd_and_envs reference_collaborators ''databricks'')
     ''MLFLOW_TRACKING_URI'' = Some None"
  by (simp add: std_simps get_docker_tracking_cmd_and_envs_def get_local_uri_or_none_def
        result_cmds_def result_env_def)

text \<open>
  C9, amended. For a tracking URI other than the literal \<open>databricks\<close> that parses with an
  empty scheme and no network location, the translator takes the local branch: it returns
  the mount pair whose host half is the decoded path component and sets the tracking-URI
  variable to the file URI of \<open>/mlflow/tmp/mlruns\<close> (the credentials are merged
  afterwards). With the parser and the decoder of the standard library the empty URI is
  such a URI, its host half is empty and the mount argument is \<open>:/mlflow/tmp/mlruns\<close>.
\<close>

theorem bare_path_local_branch:
  "(tracking_uri \<noteq> ''databricks'' \<and> urlparse c tracking_uri = Inr p \<and>
    scheme p = [] \<and> netloc p = [] \<and> get_databricks_env_vars c tracking_uri = Inr creds
    \<longrightarrow> get_docker_tracking_cmd_and_envs c tracking_uri =
          Inr ([''-v'', url2pathname c (path p) @ '':/mlflow/tmp/mlruns''],
               [TRACKING_URI_ENV_VAR c \<mapsto> path_to_local_file_uri c ''/mlflow/tmp/mlruns'']
                 ++ creds)) \<and>
   (urlparse c = std_urlparse \<and> url2pathname c = unquote \<and>
    get_databricks_env_vars c [] = Inr creds
    \<longrightarrow> get_docker_tracking_cmd_and_envs c [] =
          Inr ([''-v'', '':/mlflow/tmp/mlruns''],
               [TRACKING_URI_ENV_VAR c \<mapsto> path_to_local_file_uri c ''/mlflow/tmp/mlruns'']
                 ++ creds))"
  by (auto simp: get_docker_tracking_cmd_and_envs_def get_local_uri_or_none_def
        MLFLOW_DOCKER_TRACKING_DIR_PATH_def std_urlparse_def uses_params_def Let_def)

theorem bare_path_local_branch_witness:
  "urlparse reference_collaborators ''mlruns/local''
     = Inr \<lparr>scheme = [], netloc = [], path = ''mlruns/local''\<rparr> \<and>
   result_cmds (get_docker_tracking_cmd_and_envs reference_collaborators ''mlruns/local'')
     = Some [''-v'', ''mlruns/local:/mlflow/tmp/mlruns''] \<and>
   result_env (get_docker_tracking_cmd_and_envs reference_collaborators ''mlruns/local'')
     ''MLFLOW_TRACKING_URI'' = Some (Some ''file:///mlflow/tmp/mlruns'') \<and>
   result_cmds (get_docker_tracking_cmd_and_envs reference_collaborators [])
     = Some [''-v'', '':/mlflow/tmp/mlruns''] \<and>
   result_env (get_docker_tracking_cmd_and_envs reference_collaborators [])
     ''MLFLOW_TRACKING_URI'' = Some (Some ''file:///mlflow/tmp/mlruns'')"
proof -
  have p: "urlparse reference_collaborators ''mlruns/local''
     = Inr \<lparr>scheme = [], netloc = [], path = ''mlruns/local''\<rparr>"
    by (simp add: std_simps)
  have cr: "get_databricks_env_vars reference_collaborators u = Inr Map.empty" for u
    by (simp add: reference_collaborators_def)
  have std: "urlparse reference_collaborators = std_urlparse"
    "url2pathname reference_collaborators = unquote"
    by (simp_all add: reference_collaborators_def)
  note inst = bare_path_local_branch
    [of "''mlruns/local''" reference_collaborators
        "\<lparr>scheme = [], netloc = [], path = ''mlruns/local''\<rparr>" Map.empty]
  have bare: "get_docker_tracking_cmd_and_envs reference_collaborators ''mlruns/local'' =
      Inr ([''-v'', ''mlruns/local:/mlflow/tmp/mlruns''],
           [''MLFLOW_TRACKING_URI'' \<mapsto> ''file:///mlflow/tmp/mlruns''])"
    using inst p cr by (simp add: reference_collaborators_def)
  have empty: "get_docker_tracking_cmd_and_envs reference_collaborators [] =
      Inr ([''-v'', '':/mlflow/tmp/mlruns''],
           [''MLFLOW_TRACKING_URI'' \<mapsto> ''file:///mlflow/tmp/mlruns''])"
    using inst std cr by (simp add: reference_collaborators_def)
  show ?thesis
    by (simp add: p bare empty result_cmds_def result_env_def)
qed

section \<open>Properties of the build context\<close>

subsection \<open>Sequencing and the library calls\<close>

lemmas io_defs = io_bind_def io_finally_def io_catch_def io_return_def io_lift_def
lemmas op_defs = mkdtemp_def mkstemp_def copytree_def write_text_def make_tarfile_def rmtree_def
  open_rb_def os_remove_def set_tag_def logger_info_def

lemmas run_defs = create_docker_build_ctx_def io_defs op_defs no_faults_def example_world_def
  Let_def GENERATED_DOCKERFILE_NAME_def PROJECT_TAR_ARCHIVE_NAME_def archive_of_def

lemma io_bind_Inr:
  "io_bind m f w = (Inr r, w') \<longleftrightarrow> (\<exists>a w1. m w = (Inr a, w1) \<and> f a w1 = (Inr r, w'))"
  by (auto simp: io_bind_def split: prod.splits sum.splits)

lemma io_finally_Inr:
  "io_finally m h w = (Inr r, w') \<longleftrightarrow> (\<exists>w1 u. m w = (Inr r, w1) \<and> h w1 = (Inr u, w'))"
  by (auto simp: io_finally_def split: prod.splits sum.splits)

lemma io_return_Inr: "io_return a w = (Inr r, w') \<longleftrightarrow> r = a \<and> w' = w"
  by (auto simp: io_return_def)

lemma first_fresh_Some:
  "first_fresh f d ns = Some (n, ns') \<Longrightarrow> f (d @ [n]) = None"
  by (induction ns) (auto split: if_splits)

lemma mkdtemp_Inr:
  assumes "mkdtemp fault w = (Inr d, w1)"
  shows "\<exists>n ns. d = tempdir w @ [n] \<and> fs w d = None \<and> fs w (tempdir w) = Some Dir \<and>
           w1 = w\<lparr>fs := (fs w)(d \<mapsto> Dir), names := ns\<rparr>"
  using assms
  by (auto simp: mkdtemp_def split: option.splits if_splits dest: first_fresh_Some)

lemma mkstemp_Inr:
  assumes "mkstemp fault w = (Inr r, w1)"
  shows "\<exists>n ns. r = tempdir w @ [n] \<and> fs w r = None \<and> fs w (tempdir w) = Some Dir \<and>
           w1 = w\<lparr>fs := (fs w)(r \<mapsto> File []), names := ns\<rparr>"
  using assms
  by (auto simp: mkstemp_def split: option.splits if_splits dest: first_fresh_Some)

lemma copytree_Inr:
  assumes "copytree fault src dst w = (Inr u, w1)"
  shows "fs w src = Some Dir \<and> fs w dst = None \<and> \<not> prefix src dst \<and>
         w1 = w\<lparr>fs := (\<lambda>p. if prefix dst p then fs w (src @ drop (length dst) p) else fs w p)\<rparr>"
  using assms
  by (auto simp: copytree_def Let_def split: option.splits if_splits)

lemma write_text_Inr:
  assumes "write_text fault p contents w = (Inr u, w1)"
  shows "w1 = w\<lparr>fs := (fs w)(p \<mapsto> File contents)\<rparr>"
  using assms
  by (auto simp: write_text_def split: write_fault.splits if_splits)

lemma make_tarfile_Inr:
  assumes "make_tarfile fault out src name w = (Inr u, w1)"
  shows "w1 = w\<lparr>fs := (fs w)(out \<mapsto> TarGz (archive_of (fs w) src name))\<rparr>"
  using assms
  by (auto simp: make_tarfile_def split: option.splits if_splits)

lemma rmtree_Inr:
  assumes "rmtree fault d w = (Inr u, w1)"
  shows "fault = None \<and> w1 = w\<lparr>fs := (\<lambda>p. if prefix d p then None else fs w p)\<rparr>"
  using assms
  by (auto simp: rmtree_def split: option.splits if_splits)

lemma build_ctx_success:
  assumes "create_docker_build_ctx ft work_dir contents w = (Inr r, w')"
  shows "\<exists>n1 n2. n1 \<noteq> n2 \<and> r = tempdir w @ [n2] \<and>
           fs w (tempdir w @ [n1]) = None \<and> fs w r = None \<and>
           \<not> prefix work_dir (tempdir w @ [n1]) \<and> fs w work_dir = Some Dir \<and>
           fs w' =
             (\<lambda>p. if prefix (tempdir w @ [n1]) p then None
                  else if p = r then
                    Some (TarGz (\<lambda>q. case q of
                              [] \<Rightarrow> None
                            | x # rel \<Rightarrow>
                                if x = PROJECT_TAR_ARCHIVE_NAME
                                then (if rel = [GENERATED_DOCKERFILE_NAME]
                                      then Some (File contents) else fs w (work_dir @ rel))
                                else None))
                  else fs w p)"
proof -
  from assms obtain d w1 w5 u5 where
    mk: "mkdtemp (mkdtemp_fault ft) w = (Inr d, w1)" and
    body: "(let dst_path = d @ [''mlflow-project-contents''] in
          io_bind (copytree (copytree_fault ft) work_dir dst_path) (\<lambda>u.
          io_bind (write_text (write_fault ft) (dst_path @ [GENERATED_DOCKERFILE_NAME])
                     contents) (\<lambda>u.
          io_bind (mkstemp (mkstemp_fault ft)) (\<lambda>result_path.
          io_bind (make_tarfile (make_tarfile_fault ft) result_path dst_path
                     PROJECT_TAR_ARCHIVE_NAME) (\<lambda>u.
          io_return result_path))))) w1 = (Inr r, w5)" and
    rm: "rmtree (rmtree_fault ft) d w5 = (Inr u5, w')"
    unfolding create_docker_build_ctx_def io_bind_Inr io_finally_Inr by blast
  define dst where "dst = d @ [''mlflow-project-contents'']"
  from body obtain w2 w3 w4 u2 u3 u4 where
    cp: "copytree (copytree_fault ft) work_dir dst w1 = (Inr u2, w2)" and
    wr: "write_text (write_fault ft) (dst @ [GENERATED_DOCKERFILE_NAME]) contents w2 = (Inr u3, w3)" and
    ms: "mkstemp (mkstemp_fault ft) w3 = (Inr r, w4)" and
    tar: "make_tarfile (make_tarfile_fault ft) r dst PROJECT_TAR_ARCHIVE_NAME w4 = (Inr u4, w5)"
    unfolding Let_def io_bind_Inr io_return_Inr dst_def by blast
  from mkdtemp_Inr [OF mk] obtain n1 ns1 where
    d: "d = tempdir w @ [n1]" and fresh1: "fs w d = None" and
    w1: "w1 = w\<lparr>fs := (fs w)(d \<mapsto> Dir), names := ns1\<rparr>"
    by blast
  from copytree_Inr [OF cp] have
    src: "fs w1 work_dir = Some Dir" and nself: "\<not> prefix work_dir dst" and
    w2: "w2 = w1\<lparr>fs := (\<lambda>p. if prefix dst p then fs w1 (work_dir @ drop (length dst) p) else fs w1 p)\<rparr>"
    by blast+
  from write_text_Inr [OF wr] have
    w3: "w3 = w2\<lparr>fs := (fs w2)(dst @ [GENERATED_DOCKERFILE_NAME] \<mapsto> File contents)\<rparr>" .
  from mkstemp_Inr [OF ms] obtain n2 ns2 where
    r: "r = tempdir w3 @ [n2]" and fresh2: "fs w3 r = None" and
    w4: "w4 = w3\<lparr>fs := (fs w3)(r \<mapsto> File []), names := ns2\<rparr>"
    by blast
  from make_tarfile_Inr [OF tar] have
    w5: "w5 = w4\<lparr>fs := (fs w4)(r \<mapsto> TarGz (archive_of (fs w4) dst PROJECT_TAR_ARCHIVE_NAME))\<rparr>" .
  from rmtree_Inr [OF rm] have
    w': "w' = w5\<lparr>fs := (\<lambda>p. if prefix d p then None else fs w5 p)\<rparr>"
    by blast
  have td: "tempdir w3 = tempdir w" by (simp add: w3 w2 w1)
  have r': "r = tempdir w @ [n2]" using r td by simp
  have nd: "\<not> prefix work_dir d"
    using nself by (auto simp: dst_def prefix_def)
  have wd_ne: "work_dir @ rel \<noteq> d" for rel
    using nd by (auto simp: prefix_def)
  have r_dst: "\<not> prefix dst r"
    by (auto simp: dst_def d r' prefix_def)
  have r_d: "r \<noteq> d"
    using fresh2 r_dst by (auto simp: w3 w2 w1 dst_def split: if_splits)
  have n12: "n1 \<noteq> n2" using r_d by (auto simp: d r')
  have r_nd: "\<not> prefix d r" using n12 by (auto simp: d r' prefix_def)
  have fresh_r: "fs w r = None"
    using fresh2 r_dst r_d by (auto simp: w3 w2 w1 dst_def split: if_splits)
  have src0: "fs w work_dir = Some Dir"
    using src wd_ne [of "[]"] by (auto simp: w1 split: if_splits)
  have arch: "archive_of (fs w4) dst PROJECT_TAR_ARCHIVE_NAME =
      (\<lambda>q. case q of [] \<Rightarrow> None
             | x # rel \<Rightarrow>
                 if x = PROJECT_TAR_ARCHIVE_NAME
                 then (if rel = [GENERATED_DOCKERFILE_NAME]
                       then Some (File contents) else fs w (work_dir @ rel))
                 else None)"
  proof (rule ext)
    fix q
    show "archive_of (fs w4) dst PROJECT_TAR_ARCHIVE_NAME q =
      (case q of [] \<Rightarrow> None
             | x # rel \<Rightarrow>
                 if x = PROJECT_TAR_ARCHIVE_NAME
                 then (if rel = [GENERATED_DOCKERFILE_NAME]
                       then Some (File contents) else fs w (work_dir @ rel))
                 else None)"
    proof (cases q)
      case Nil
      then show ?thesis by (simp add: archive_of_def)
    next
      case (Cons x rel)
      have "dst @ rel \<noteq> r" using r_dst by (auto simp: prefix_def)
      then have "fs w4 (dst @ rel) =
          (if rel = [GENERATED_DOCKERFILE_NAME] then Some (File contents)
           else fs w (work_dir @ rel))"
        using wd_ne [of rel] by (simp add: w4 w3 w2 w1)
      then show ?thesis using Cons by (simp add: archive_of_def)
    qed
  qed
  have "fs w' =
      (\<lambda>p. if prefix d p then None
            else if p = r then Some (TarGz (archive_of (fs w4) dst PROJECT_TAR_ARCHIVE_NAME))
            else fs w p)"
  proof (rule ext)
    fix p
    show "fs w' p = (if prefix d p then None
            else if p = r then Some (TarGz (archive_of (fs w4) dst PROJECT_TAR_ARCHIVE_NAME))
            else fs w p)"
    proof (cases "prefix d p")
      case True
      then show ?thesis by (simp add: w')
    next
      case False
      then have "\<not> prefix dst p" "p \<noteq> d" "p \<noteq> dst @ [GENERATED_DOCKERFILE_NAME]"
        by (auto simp: dst_def prefix_def)
      with False show ?thesis
        by (simp add: w' w5 w4 w3 w2 w1)
    qed
  qed
  then have fs': "fs w' =
             (\<lambda>p. if prefix (tempdir w @ [n1]) p then None
                  else if p = r then
                    Some (TarGz (\<lambda>q. case q of
                              [] \<Rightarrow> None
                            | x # rel \<Rightarrow>
                                if x = PROJECT_TAR_ARCHIVE_NAME
                                then (if rel = [GENERATED_DOCKERFILE_NAME]
                                      then Some (File contents) else fs w (work_dir @ rel))
                                else None))
                  else fs w p)"
    unfolding arch d .
  have "n1 \<noteq> n2 \<and> r = tempdir w @ [n2] \<and>
           fs w (tempdir w @ [n1]) = None \<and> fs w r = None \<and>
           \<not> prefix work_dir (tempdir w @ [n1]) \<and> fs w work_dir = Some Dir \<and>
           fs w' =
             (\<lambda>p. if prefix (tempdir w @ [n1]) p then None
                  else if p = r then
                    Some (TarGz (\<lambda>q. case q of
                              [] \<Rightarrow> None
                            | x # rel \<Rightarrow>
                                if x = PROJECT_TAR_ARCHIVE_NAME
                                then (if rel = [GENERATED_DOCKERFILE_NAME]
                                      then Some (File contents) else fs w (work_dir @ rel))
                                else None))
                  else fs w p)"
    using n12 r' fresh1 fresh_r nd src0 unfolding d by (intro conjI fs') simp_all
  then show ?thesis by blast
qed


lemma build_ctx_stored:
  assumes "create_docker_build_ctx ft work_dir contents w = (Inr r, w')"
  shows "\<exists>a. fs w' r = Some (TarGz a)"
proof -
  from build_ctx_success [OF assms] obtain n1 n2 a where
    n12: "n1 \<noteq> n2" and r: "r = tempdir w @ [n2]" and
    fs': "fs w' = (\<lambda>p. if prefix (tempdir w @ [n1]) p then None
                  else if p = r then Some (TarGz a) else fs w p)"
    by blast
  from n12 r have "\<not> prefix (tempdir w @ [n1]) r"
    by (auto simp: prefix_def)
  then show ?thesis by (simp add: fs')
qed

text \<open>
  The function does return: without an injected failure, with the source directory and
  the directory of temporary files in place, two distinct free names to come, the source
  directory not containing the staging directory, and no directory in the way of the
  manifest, the run returns the path under the second name.
\<close>

lemma build_ctx_returns:
  assumes nm: "names w = n1 # n2 # ns" "n1 \<noteq> n2"
    and tmp: "fs w (tempdir w) = Some Dir"
    and fresh: "fs w (tempdir w @ [n1]) = None" "fs w (tempdir w @ [n2]) = None"
      "fs w (tempdir w @ [n1, ''mlflow-project-contents'']) = None"
    and src: "fs w work_dir = Some Dir" "\<not> prefix work_dir (tempdir w @ [n1])"
      "fs w (work_dir @ [GENERATED_DOCKERFILE_NAME]) \<noteq> Some Dir"
  shows "fst (create_docker_build_ctx no_faults work_dir contents w) = Inr (tempdir w @ [n2])"
proof -
  have a: "\<not> prefix work_dir (tempdir w @ [n1, ''mlflow-project-contents''])"
  proof
    assume "prefix work_dir (tempdir w @ [n1, ''mlflow-project-contents''])"
    then have "prefix work_dir ((tempdir w @ [n1]) @ [''mlflow-project-contents''])" by simp
    then have "work_dir = (tempdir w @ [n1]) @ [''mlflow-project-contents''] \<or>
               prefix work_dir (tempdir w @ [n1])"
      unfolding prefix_snoc by blast
    with src fresh show False by auto
  qed
  have b: "work_dir \<noteq> tempdir w @ [n1]" "work_dir @ [GENERATED_DOCKERFILE_NAME] \<noteq> tempdir w @ [n1]"
    using src fresh by (auto simp: prefix_def)
  have c: "tempdir w \<noteq> tempdir w @ [n1, ''mlflow-project-contents'', GENERATED_DOCKERFILE_NAME]"
    by simp
  show ?thesis
    using assms a b
    by (simp add: create_docker_build_ctx_def io_defs mkdtemp_def mkstemp_def copytree_def
          write_text_def make_tarfile_def rmtree_def no_faults_def Let_def butlast_append)
qed

lemma io_bind_cases:
  assumes "io_bind m f w = (res, w')"
  shows "(\<exists>e. m w = (Inl e, w') \<and> res = Inl e) \<or> (\<exists>a w1. m w = (Inr a, w1) \<and> f a w1 = (res, w'))"
  using assms by (auto simp: io_bind_def split: prod.splits sum.splits)

lemma copytree_keeps:
  assumes "copytree fault src dst w = (res, w1)" and "\<not> prefix dst p"
  shows "fs w1 p = fs w p"
  using assms
  by (auto simp: copytree_def Let_def split: option.splits if_splits)

lemma write_text_keeps:
  assumes "write_text fault q contents w = (res, w1)" and "p \<noteq> q"
  shows "fs w1 p = fs w p"
  using assms
  by (auto simp: write_text_def split: write_fault.splits if_splits)

lemma mkstemp_keeps:
  assumes "mkstemp fault w = (res, w1)" and "fs w p \<noteq> None"
  shows "fs w1 p = fs w p"
  using assms first_fresh_Some [of "fs w" "tempdir w" "names w"]
  by (auto simp: mkstemp_def split: option.splits if_splits)

lemma make_tarfile_keeps:
  assumes "make_tarfile fault out src name w = (res, w1)" and "p \<noteq> out"
  shows "fs w1 p = fs w p"
  using assms
  by (auto simp: make_tarfile_def split: option.splits if_splits)

lemma staging_dir_survives_body:
  assumes dir: "fs w1 d = Some Dir"
    and body: "io_bind (copytree cf work_dir (d @ [sub])) (\<lambda>u.
          io_bind (write_text wfl ((d @ [sub]) @ [name]) contents) (\<lambda>u.
          io_bind (mkstemp mf) (\<lambda>result_path.
          io_bind (make_tarfile tf result_path (d @ [sub]) aname) (\<lambda>u.
          io_return result_path)))) w1 = (res, w5)"
  shows "fs w5 d = Some Dir"
proof -
  have nd: "\<not> prefix (d @ [sub]) d" by (auto simp: prefix_def)
  have nw: "d \<noteq> (d @ [sub]) @ [name]" by simp
  from io_bind_cases [OF body] show ?thesis
  proof (elim disjE exE conjE)
    fix e assume "copytree cf work_dir (d @ [sub]) w1 = (Inl e, w5)"
    from copytree_keeps [OF this nd] dir show ?thesis by simp
  next
    fix a w2
    assume cp: "copytree cf work_dir (d @ [sub]) w1 = (Inr a, w2)"
      and rest: "io_bind (write_text wfl ((d @ [sub]) @ [name]) contents) (\<lambda>u.
          io_bind (mkstemp mf) (\<lambda>result_path.
          io_bind (make_tarfile tf result_path (d @ [sub]) aname) (\<lambda>u.
          io_return result_path))) w2 = (res, w5)"
    from copytree_keeps [OF cp nd] dir have d2: "fs w2 d = Some Dir" by simp
    from io_bind_cases [OF rest] show ?thesis
    proof (elim disjE exE conjE)
      fix e assume "write_text wfl ((d @ [sub]) @ [name]) contents w2 = (Inl e, w5)"
      from write_text_keeps [OF this nw] d2 show ?thesis by simp
    next
      fix a w3
      assume wr: "write_text wfl ((d @ [sub]) @ [name]) contents w2 = (Inr a, w3)"
        and rest: "io_bind (mkstemp mf) (\<lambda>result_path.
          io_bind (make_tarfile tf result_path (d @ [sub]) aname) (\<lambda>u.
          io_return result_path)) w3 = (res, w5)"
      from write_text_keeps [OF wr nw] d2 have d3: "fs w3 d = Some Dir" by simp
      from io_bind_cases [OF rest] show ?thesis
      proof (elim disjE exE conjE)
        fix e assume "mkstemp mf w3 = (Inl e, w5)"
        from mkstemp_keeps [OF this, of d] d3 show ?thesis by simp
      next
        fix r w4
        assume ms: "mkstemp mf w3 = (Inr r, w4)"
          and rest: "io_bind (make_tarfile tf r (d @ [sub]) aname) (\<lambda>u. io_return r) w4
                       = (res, w5)"
        from mkstemp_keeps [OF ms, of d] d3 have d4: "fs w4 d = Some Dir" by simp
        from mkstemp_Inr [OF ms] d3 have rd: "d \<noteq> r" by auto
        from io_bind_cases [OF rest] show ?thesis
        proof (elim disjE exE conjE)
          fix e assume "make_tarfile tf r (d @ [sub]) aname w4 = (Inl e, w5)"
          from make_tarfile_keeps [OF this rd] d4 show ?thesis by simp
        next
          fix a w6
          assume tar: "make_tarfile tf r (d @ [sub]) aname w4 = (Inr a, w6)"
            and "io_return r w6 = (res, w5)"
          then have "w5 = w6" by (simp add: io_return_def)
          with make_tarfile_keeps [OF tar rd] d4 show ?thesis by simp
        qed
      qed
    qed
  qed
qed

lemma staging_dir_after_finally:
  assumes dir: "fs w5 d = Some Dir"
    and fin: "rmtree fault d w5 = (r, w')"
  shows "(fault = None \<longrightarrow> r = Inr () \<and> (\<forall>p. prefix d p \<longrightarrow> fs w' p = None)) \<and>
         (fault \<noteq> None \<longrightarrow> r = Inl OSError \<and> fs w' d = Some Dir)"
  using assms by (auto simp: rmtree_def split: option.splits)

subsection \<open>The staging directory\<close>

text \<open>
  C2, amended. The staging directory does not exist before the call. Whenever the final
  \<open>rmtree\<close> does not fail, the directory and everything below it do not exist after the
  call, on the success path and on every failure of the copy, of the manifest write, of
  \<open>mkstemp\<close> and of the archiving. When \<open>rmtree\<close> fails, the call raises and the
  directory is still there. When \<open>mkdtemp\<close> fails, no directory is created and the file
  system is unchanged.
\<close>

theorem staging_dir_removed_unless_rmtree_fails:
  "(\<forall>directory w1.
      mkdtemp (mkdtemp_fault ft) w = (Inr directory, w1) \<and>
      create_docker_build_ctx ft work_dir dockerfile_contents w = (res, w')
      \<longrightarrow> fs w directory = None \<and>
          (rmtree_fault ft = None \<longrightarrow>
             fs w' directory = None \<and> (\<forall>p. prefix directory p \<longrightarrow> fs w' p = None)) \<and>
          (rmtree_fault ft \<noteq> None \<longrightarrow> res = Inl OSError \<and> fs w' directory = Some Dir)) \<and>
   (\<forall>e w1.
      mkdtemp (mkdtemp_fault ft) w = (Inl e, w1) \<and>
      create_docker_build_ctx ft work_dir dockerfile_contents w = (res, w')
      \<longrightarrow> res = Inl e \<and> fs w' = fs w)"
proof -
  have failed: "res = Inl e \<and> fs w' = fs w"
    if "mkdtemp (mkdtemp_fault ft) w = (Inl e, w1)"
      and "create_docker_build_ctx ft work_dir dockerfile_contents w = (res, w')"
    for e w1
    using that
    by (auto simp: create_docker_build_ctx_def io_bind_def mkdtemp_def
          split: option.splits if_splits)
  have created: "fs w directory = None \<and>
          (rmtree_fault ft = None \<longrightarrow>
             fs w' directory = None \<and> (\<forall>p. prefix directory p \<longrightarrow> fs w' p = None)) \<and>
          (rmtree_fault ft \<noteq> None \<longrightarrow> res = Inl OSError \<and> fs w' directory = Some Dir)"
    if mk: "mkdtemp (mkdtemp_fault ft) w = (Inr directory, w1)"
      and run: "create_docker_build_ctx ft work_dir dockerfile_contents w = (res, w')"
    for directory w1
  proof -
    from mkdtemp_Inr [OF mk]
    have fresh: "fs w directory = None" and d1: "fs w1 directory = Some Dir"
      by auto
    from run mk obtain rb w5 rf where
      body: "io_bind (copytree (copytree_fault ft) work_dir (directory @ [''mlflow-project-contents''])) (\<lambda>u.
            io_bind (write_text (write_fault ft)
                       ((directory @ [''mlflow-project-contents'']) @ [GENERATED_DOCKERFILE_NAME])
                       dockerfile_contents) (\<lambda>u.
            io_bind (mkstemp (mkstemp_fault ft)) (\<lambda>result_path.
            io_bind (make_tarfile (make_tarfile_fault ft) result_path
                       (directory @ [''mlflow-project-contents'']) PROJECT_TAR_ARCHIVE_NAME) (\<lambda>u.
            io_return result_path)))) w1 = (rb, w5)"
      and fin: "rmtree (rmtree_fault ft) directory w5 = (rf, w')"
      and res: "res = (case rf of Inl e \<Rightarrow> Inl e | Inr u \<Rightarrow> rb)"
      by (auto simp: create_docker_build_ctx_def io_bind_def io_finally_def Let_def
            split: prod.splits sum.splits)
    from staging_dir_survives_body [OF d1 body] have d5: "fs w5 directory = Some Dir" .
    from staging_dir_after_finally [OF d5 fin] res fresh
    show ?thesis
      by auto
  qed
  from failed created show ?thesis by blast
qed

text \<open>
  C2 as stated fails when the removal itself fails. With every other step succeeding, and
  also on the archive-failure path, an \<open>rmtree\<close> that raises leaves the staging directory
  \<open>/tmp/tmpa\<close> in place, and the call raises.
\<close>

theorem staging_dir_left_counterexample:
  "fst (create_docker_build_ctx (no_faults\<lparr>rmtree_fault := Some (\<lambda>p. False)\<rparr>)
          [''proj''] ''FROM python:3.8'' example_world) = Inl OSError \<and>
   fs example_world [''tmp'', ''tmpa''] = None \<and>
   fs (snd (create_docker_build_ctx (no_faults\<lparr>rmtree_fault := Some (\<lambda>p. False)\<rparr>)
              [''proj''] ''FROM python:3.8'' example_world)) [''tmp'', ''tmpa''] = Some Dir \<and>
   fst (create_docker_build_ctx
          (no_faults\<lparr>make_tarfile_fault := Some [], rmtree_fault := Some (\<lambda>p. False)\<rparr>)
          [''proj''] ''FROM python:3.8'' example_world) = Inl OSError \<and>
   fs (snd (create_docker_build_ctx
              (no_faults\<lparr>make_tarfile_fault := Some [], rmtree_fault := Some (\<lambda>p. False)\<rparr>)
              [''proj''] ''FROM python:3.8'' example_world)) [''tmp'', ''tmpa''] = Some Dir"
  by (simp add: run_defs)

theorem staging_dir_removed_unless_rmtree_fails_witness:
  "fst (mkdtemp False example_world) = Inr [''tmp'', ''tmpa''] \<and>
   fst (create_docker_build_ctx (no_faults\<lparr>copytree_fault := Some (\<lambda>p. True)\<rparr>)
          [''proj''] ''FROM python:3.8'' example_world) = Inl OSError \<and>
   fs example_world [''tmp'', ''tmpa''] = None \<and>
   fs (snd (create_docker_build_ctx (no_faults\<lparr>copytree_fault := Some (\<lambda>p. True)\<rparr>)
              [''proj''] ''FROM python:3.8'' example_world)) [''tmp'', ''tmpa''] = None \<and>
   fs (snd (create_docker_build_ctx (no_faults\<lparr>copytree_fault := Some (\<lambda>p. True)\<rparr>)
              [''proj''] ''FROM python:3.8'' example_world))
      [''tmp'', ''tmpa'', ''mlflow-project-contents'', ''MLproject''] = None"
proof -
  let ?ft = "no_faults\<lparr>copytree_fault := Some (\<lambda>p. True)\<rparr>"
  let ?run = "create_docker_build_ctx ?ft [''proj''] ''FROM python:3.8'' example_world"
  have mk0: "fst (mkdtemp False example_world) = Inr [''tmp'', ''tmpa'']"
    by (simp add: mkdtemp_def example_world_def)
  have mk: "mkdtemp (mkdtemp_fault ?ft) example_world =
              (Inr [''tmp'', ''tmpa''], snd (mkdtemp False example_world))"
    by (simp add: mkdtemp_def no_faults_def example_world_def)
  have run: "?run = (fst ?run, snd ?run)" by simp
  have rf: "rmtree_fault ?ft = None" by (simp add: no_faults_def)
  have res: "fst ?run = Inl OSError" by (simp add: run_defs)
  from staging_dir_removed_unless_rmtree_fails
         [of ?ft example_world "[''proj'']" "''FROM python:3.8''" "fst ?run" "snd ?run"]
       mk run rf
  have gone: "fs example_world [''tmp'', ''tmpa''] = None \<and>
        fs (snd ?run) [''tmp'', ''tmpa''] = None \<and>
        (\<forall>p. prefix [''tmp'', ''tmpa''] p \<longrightarrow> fs (snd ?run) p = None)"
    by blast
  then have below: "fs (snd ?run) [''tmp'', ''tmpa'', ''mlflow-project-contents'', ''MLproject''] = None"
    by simp
  from mk0 res gone below show ?thesis by blast
qed

subsection \<open>The archive\<close>

text \<open>
  C5 as stated fails: the staging subdirectory is named \<open>mlflow-project-contents\<close> (line
  108), and the archive has no entry of that name; its root entry is
  \<open>mlflow-project-docker-build-context\<close>, the \<open>archive_name\<close> argument.
\<close>

theorem archive_root_not_staging_name_counterexample:
  "fst (create_docker_build_ctx no_faults [''proj''] ''FROM python:3.8'' example_world)
     = Inr [''tmp'', ''tmpb''] \<and>
   archive_member
     (snd (create_docker_build_ctx no_faults [''proj''] ''FROM python:3.8'' example_world))
     [''tmp'', ''tmpb''] [''mlflow-project-contents''] = None \<and>
   archive_member
     (snd (create_docker_build_ctx no_faults [''proj''] ''FROM python:3.8'' example_world))
     [''tmp'', ''tmpb''] [''mlflow-project-docker-build-context''] = Some Dir"
  by (simp add: run_defs archive_member_def)

text \<open>
  C5, amended. When \<open>_create_docker_build_ctx\<close> returns, the file at the returned path is a
  gzip-compressed tar archive whose single root entry is the directory
  \<open>mlflow-project-docker-build-context\<close>; no entry carries the staging subdirectory's name
  \<open>mlflow-project-contents\<close>. Below the root the archive holds the manifest under
  \<open>Dockerfile.mlflow-autogenerated\<close> and, at every other path, what the source directory
  holds at that path.
\<close>

theorem archive_root_and_manifest:
  assumes "create_docker_build_ctx ft work_dir dockerfile_contents w = (Inr result_path, w')"
  shows "\<exists>a. fs w' result_path = Some (TarGz a) \<and>
           a [''mlflow-project-docker-build-context''] = Some Dir \<and>
           (\<forall>q. a q \<noteq> None \<longrightarrow> (\<exists>rel. q = ''mlflow-project-docker-build-context'' # rel)) \<and>
           (\<forall>rel. a (''mlflow-project-contents'' # rel) = None) \<and>
           a [''mlflow-project-docker-build-context'', ''Dockerfile.mlflow-autogenerated'']
             = Some (File dockerfile_contents) \<and>
           (\<forall>rel. rel \<noteq> [''Dockerfile.mlflow-autogenerated''] \<longrightarrow>
                  a (''mlflow-project-docker-build-context'' # rel) = fs w (work_dir @ rel))"
proof -
  let ?a = "\<lambda>q. case q of
                [] \<Rightarrow> None
              | x # rel \<Rightarrow>
                  if x = PROJECT_TAR_ARCHIVE_NAME
                  then (if rel = [GENERATED_DOCKERFILE_NAME]
                        then Some (File dockerfile_contents) else fs w (work_dir @ rel))
                  else None"
  from build_ctx_success [OF assms] obtain n1 n2 where
    n12: "n1 \<noteq> n2" and r: "result_path = tempdir w @ [n2]" and
    src: "fs w work_dir = Some Dir" and
    fs': "fs w' = (\<lambda>p. if prefix (tempdir w @ [n1]) p then None
                  else if p = result_path then Some (TarGz ?a) else fs w p)"
    by blast
  from n12 r have "\<not> prefix (tempdir w @ [n1]) result_path"
    by (auto simp: prefix_def)
  then have stored: "fs w' result_path = Some (TarGz ?a)"
    by (simp add: fs')
  have root: "?a [''mlflow-project-docker-build-context''] = Some Dir"
    using src by (simp add: PROJECT_TAR_ARCHIVE_NAME_def GENERATED_DOCKERFILE_NAME_def)
  have single: "\<forall>q. ?a q \<noteq> None \<longrightarrow> (\<exists>rel. q = ''mlflow-project-docker-build-context'' # rel)"
    by (auto simp: PROJECT_TAR_ARCHIVE_NAME_def split: list.splits if_splits)
  have staging: "\<forall>rel. ?a (''mlflow-project-contents'' # rel) = None"
    by (simp add: PROJECT_TAR_ARCHIVE_NAME_def)
  have manifest: "?a [''mlflow-project-docker-build-context'', ''Dockerfile.mlflow-autogenerated'']
             = Some (File dockerfile_contents)"
    by (simp add: PROJECT_TAR_ARCHIVE_NAME_def GENERATED_DOCKERFILE_NAME_def)
  have tree: "\<forall>rel. rel \<noteq> [''Dockerfile.mlflow-autogenerated''] \<longrightarrow>
                  ?a (''mlflow-project-docker-build-context'' # rel) = fs w (work_dir @ rel)"
    by (simp add: PROJECT_TAR_ARCHIVE_NAME_def GENERATED_DOCKERFILE_NAME_def)
  from stored root single staging manifest tree show ?thesis
    by (intro exI [of _ ?a] conjI)
qed

theorem archive_root_and_manifest_witness:
  "fst (create_docker_build_ctx no_faults [''proj''] ''FROM python:3.8'' example_world)
     = Inr [''tmp'', ''tmpb''] \<and>
   archive_member
     (snd (create_docker_build_ctx no_faults [''proj''] ''FROM python:3.8'' example_world))
     [''tmp'', ''tmpb'']
     [''mlflow-project-docker-build-context'', ''Dockerfile.mlflow-autogenerated'']
     = Some (File ''FROM python:3.8'') \<and>
   archive_member
     (snd (create_docker_build_ctx no_faults [''proj''] ''FROM python:3.8'' example_world))
     [''tmp'', ''tmpb'']
     [''mlflow-project-docker-build-context'', ''src'', ''train.py'']
     = Some (File ''print(1)'')"
proof -
  let ?run = "create_docker_build_ctx no_faults [''proj''] ''FROM python:3.8'' example_world"
  have res: "fst ?run = Inr [''tmp'', ''tmpb'']"
    by (simp add: run_defs)
  then have run: "?run = (Inr [''tmp'', ''tmpb''], snd ?run)"
    by (metis prod.collapse)
  from archive_root_and_manifest [OF run] obtain a where
    stored: "fs (snd ?run) [''tmp'', ''tmpb''] = Some (TarGz a)" and
    manifest: "a [''mlflow-project-docker-build-context'', ''Dockerfile.mlflow-autogenerated'']
                 = Some (File ''FROM python:3.8'')" and
    tree: "\<forall>rel. rel \<noteq> [''Dockerfile.mlflow-autogenerated''] \<longrightarrow>
             a (''mlflow-project-docker-build-context'' # rel) = fs example_world ([''proj''] @ rel)"
    by blast
  from tree have "a [''mlflow-project-docker-build-context'', ''src'', ''train.py'']
      = fs example_world [''proj'', ''src'', ''train.py'']"
    by (metis append_Cons append_Nil list.inject list.distinct(1))
  then have "a [''mlflow-project-docker-build-context'', ''src'', ''train.py'']
      = Some (File ''print(1)'')"
    by (simp add: example_world_def)
  with res stored manifest show ?thesis
    by (simp add: archive_member_def)
qed

subsection \<open>Two runs on the same source\<close>

text \<open>
  A run that returns leaves the source directory as it was, provided every path that
  exists lies in directories that exist.
\<close>

lemma build_ctx_source_unchanged:
  assumes run: "create_docker_build_ctx ft work_dir contents w = (Inr r, w')"
    and closed: "tree_closed (fs w)"
  shows "fs w' (work_dir @ rel) = fs w (work_dir @ rel)"
proof -
  from build_ctx_success [OF run] obtain n1 n2 where
    r: "r = tempdir w @ [n2]" and
    fresh1: "fs w (tempdir w @ [n1]) = None" and fresh2: "fs w r = None" and
    nself: "\<not> prefix work_dir (tempdir w @ [n1])" and src: "fs w work_dir = Some Dir" and
    fs': "\<And>p. fs w' p = (if prefix (tempdir w @ [n1]) p then None
                  else if p = r then
                    Some (TarGz (\<lambda>q. case q of
                              [] \<Rightarrow> None
                            | x # rel \<Rightarrow>
                                if x = PROJECT_TAR_ARCHIVE_NAME
                                then (if rel = [GENERATED_DOCKERFILE_NAME]
                                      then Some (File contents) else fs w (work_dir @ rel))
                                else None))
                  else fs w p)"
    by (metis (no_types, lifting))
  have under: "fs w (d @ q) = None" if "fs w d = None" for d q
    using closed that unfolding tree_closed_def by blast
  show ?thesis
  proof (cases "prefix (tempdir w @ [n1]) (work_dir @ rel)")
    case True
    then consider "prefix (tempdir w @ [n1]) work_dir"
      | us where "tempdir w @ [n1] = work_dir @ us"
      by (auto simp: prefix_append)
    then show ?thesis
    proof cases
      case 1
      then obtain q where "work_dir = (tempdir w @ [n1]) @ q" by (auto simp: prefix_def)
      with under [OF fresh1, of q] src show ?thesis by simp
    next
      case 2
      with nself show ?thesis by (auto simp: prefix_def)
    qed
  next
    case False
    show ?thesis
    proof (cases "work_dir @ rel = r")
      case True
      have "rel \<noteq> []" using True fresh2 src by auto
      then obtain rs x where "rel = rs @ [x]" by (meson rev_exhaust)
      with True r have "work_dir @ rs = tempdir w" by simp
      then have "prefix work_dir (tempdir w @ [n1])" by (metis prefixI prefix_prefix)
      with nself show ?thesis by simp
    next
      case neq: False
      with False show ?thesis by (simp add: fs')
    qed
  qed
qed

text \<open>
  C8. Two runs of \<open>_create_docker_build_ctx\<close> with the same manifest contents, on worlds
  whose source directory holds the same tree, that both return, leave archives that hold
  the same tree. (Modification times are not part of the model.)
\<close>

theorem build_ctx_archives_agree:
  assumes "create_docker_build_ctx ft1 work_dir dockerfile_contents w1 = (Inr r1, w1')"
    and "create_docker_build_ctx ft2 work_dir dockerfile_contents w2 = (Inr r2, w2')"
    and "\<forall>rel. fs w2 (work_dir @ rel) = fs w1 (work_dir @ rel)"
  shows "\<exists>a. fs w1' r1 = Some (TarGz a) \<and> fs w2' r2 = Some (TarGz a)"
proof -
  let ?a = "\<lambda>w q. case q of
                [] \<Rightarrow> None
              | x # rel \<Rightarrow>
                  if x = PROJECT_TAR_ARCHIVE_NAME
                  then (if rel = [GENERATED_DOCKERFILE_NAME]
                        then Some (File dockerfile_contents) else fs w (work_dir @ rel))
                  else None"
  have stored: "fs w' r = Some (TarGz (?a w))"
    if "create_docker_build_ctx ft work_dir dockerfile_contents w = (Inr r, w')" for ft w r w'
  proof -
    from build_ctx_success [OF that] obtain n1 n2 where
      n12: "n1 \<noteq> n2" and r: "r = tempdir w @ [n2]" and
      fs': "fs w' = (\<lambda>p. if prefix (tempdir w @ [n1]) p then None
                    else if p = r then Some (TarGz (?a w)) else fs w p)"
      by blast
    from n12 r have "\<not> prefix (tempdir w @ [n1]) r"
      by (auto simp: prefix_def)
    then show ?thesis by (simp add: fs')
  qed
  have "?a w2 = ?a w1"
    using assms(3) by (auto intro!: ext split: list.splits)
  with stored [OF assms(1)] stored [OF assms(2)] show ?thesis
    by simp
qed

lemma example_world_tree_closed: "tree_closed (fs example_world)"
  unfolding tree_closed_def example_world_def
  by (auto simp: append_eq_Cons_conv split: if_splits)

theorem build_ctx_archives_agree_witness:
  "fst (create_docker_build_ctx no_faults [''proj''] ''FROM python:3.8'' example_world)
     = Inr [''tmp'', ''tmpb''] \<and>
   fst (create_docker_build_ctx no_faults [''proj''] ''FROM python:3.8''
          (snd (create_docker_build_ctx no_faults [''proj''] ''FROM python:3.8'' example_world)))
     = Inr [''tmp'', ''tmpd''] \<and>
   (\<forall>rel. fs (snd (create_docker_build_ctx no_faults [''proj''] ''FROM python:3.8'' example_world))
            ([''proj''] @ rel) = fs example_world ([''proj''] @ rel)) \<and>
   fs (snd (create_docker_build_ctx no_faults [''proj''] ''FROM python:3.8''
             (snd (create_docker_build_ctx no_faults [''proj''] ''FROM python:3.8'' example_world))))
      [''tmp'', ''tmpd'']
     = fs (snd (create_docker_build_ctx no_faults [''proj''] ''FROM python:3.8'' example_world))
         [''tmp'', ''tmpb'']"
proof -
  let ?run1 = "create_docker_build_ctx no_faults [''proj''] ''FROM python:3.8'' example_world"
  let ?run2 = "create_docker_build_ctx no_faults [''proj''] ''FROM python:3.8'' (snd ?run1)"
  have res1: "fst ?run1 = Inr [''tmp'', ''tmpb'']"
    by (simp add: run_defs)
  have res2: "fst ?run2 = Inr [''tmp'', ''tmpd'']"
    by (simp add: run_defs)
  from res1 have run1: "?run1 = (Inr [''tmp'', ''tmpb''], snd ?run1)"
    by (metis prod.collapse)
  from res2 have run2: "?run2 = (Inr [''tmp'', ''tmpd''], snd ?run2)"
    by (metis prod.collapse)
  have same: "\<forall>rel. fs (snd ?run1) ([''proj''] @ rel) = fs example_world ([''proj''] @ rel)"
    using build_ctx_source_unchanged [OF run1 example_world_tree_closed] by blast
  from build_ctx_archives_agree [OF run1 run2 same] res1 res2 same
  show ?thesis by auto
qed

section \<open>Properties of the image build\<close>

lemma create_ctx_ignores_remove_fault:
  "create_docker_build_ctx (ft\<lparr>remove_fault := b\<rparr>) = create_docker_build_ctx ft"
  by (simp add: create_docker_build_ctx_def fun_eq_iff)

lemma set_tag_world:
  "set_tag fault run_id key val w =
     (if fault key then (Inl MlflowException, w)
      else (Inr (), w\<lparr>tags := (tags w)((run_id, key) \<mapsto> val)\<rparr>))"
  by (simp add: set_tag_def)

text \<open>
  C7. A failing deletion of the build-context archive is not fatal. Whether \<open>os.remove\<close>
  fails or not, \<open>build_docker_image\<close> ends with the same outcome (the same image or the
  same exception) and the same tags. After a successful image build with the deletion
  failing, and the tracking client accepting the tags, the call returns the image handle
  with both tags set; the deletion leaves only a log record, and the archive stays.
\<close>

theorem remove_failure_not_fatal:
  "fst (build_docker_image c (ft\<lparr>remove_fault := True\<rparr>) work_dir repository_uri base_image run_id w)
     = fst (build_docker_image c (ft\<lparr>remove_fault := False\<rparr>) work_dir repository_uri base_image run_id w) \<and>
   tags (snd (build_docker_image c (ft\<lparr>remove_fault := True\<rparr>) work_dir repository_uri base_image run_id w))
     = tags (snd (build_docker_image c (ft\<lparr>remove_fault := False\<rparr>) work_dir repository_uri base_image run_id w)) \<and>
   (\<forall>build_ctx_path w1 docker_build_ctx image.
      create_docker_build_ctx ft work_dir (dockerfile_text c base_image) w = (Inr build_ctx_path, w1) \<and>
      fs w1 build_ctx_path = Some docker_build_ctx \<and>
      \<not> open_fault ft \<and>
      from_env c = Inr () \<and>
      images_build c (get_docker_image_uri c repository_uri work_dir) True
        ''mlflow-project-docker-build-context/Dockerfile.mlflow-autogenerated''
        docker_build_ctx True ''gzip'' = Inr image \<and>
      remove_fault ft \<and>
      \<not> set_tag_fault ft (MLFLOW_DOCKER_IMAGE_URI c) \<and>
      \<not> set_tag_fault ft (MLFLOW_DOCKER_IMAGE_ID c)
      \<longrightarrow>
      build_docker_image c ft work_dir repository_uri base_image run_id w =
        (Inr image,
         w1\<lparr>log := log w1 @
                  [(''=== Building docker image %s ==='', get_docker_image_uri c repository_uri work_dir),
                   (''Temporary docker context file %s was not deleted.'', path_str build_ctx_path)],
            tags := (tags w1)
                  ((run_id, MLFLOW_DOCKER_IMAGE_URI c) \<mapsto> get_docker_image_uri c repository_uri work_dir,
                   (run_id, MLFLOW_DOCKER_IMAGE_ID c) \<mapsto> image_id image)\<rparr>))"
proof (intro conjI allI impI)
  let ?run = "\<lambda>b. build_docker_image c (ft\<lparr>remove_fault := b\<rparr>) work_dir repository_uri base_image run_id w"
  obtain r0 w0 where ctx: "create_docker_build_ctx ft work_dir (dockerfile_text c base_image) w = (r0, w0)"
    by (cases "create_docker_build_ctx ft work_dir (dockerfile_text c base_image) w")
  have both: "fst (?run True) = fst (?run False) \<and> tags (snd (?run True)) = tags (snd (?run False))"
    using ctx
    by (auto simp: build_docker_image_def create_ctx_ignores_remove_fault Let_def io_bind_def
          io_catch_def io_return_def io_lift_def open_rb_def os_remove_def logger_info_def
          set_tag_world
          split: sum.splits option.splits node.splits prod.splits if_splits)
  from both show "fst (?run True) = fst (?run False)" by simp
  from both show "tags (snd (?run True)) = tags (snd (?run False))" by simp
next
  fix build_ctx_path w1 docker_build_ctx image
  assume h: "create_docker_build_ctx ft work_dir (dockerfile_text c base_image) w = (Inr build_ctx_path, w1) \<and>
      fs w1 build_ctx_path = Some docker_build_ctx \<and>
      \<not> open_fault ft \<and>
      from_env c = Inr () \<and>
      images_build c (get_docker_image_uri c repository_uri work_dir) True
        ''mlflow-project-docker-build-context/Dockerfile.mlflow-autogenerated''
        docker_build_ctx True ''gzip'' = Inr image \<and>
      remove_fault ft \<and>
      \<not> set_tag_fault ft (MLFLOW_DOCKER_IMAGE_URI c) \<and>
      \<not> set_tag_fault ft (MLFLOW_DOCKER_IMAGE_ID c)"
  then have ctx: "create_docker_build_ctx ft work_dir (dockerfile_text c base_image) w = (Inr build_ctx_path, w1)"
    by simp
  from build_ctx_stored [OF ctx] obtain a where "fs w1 build_ctx_path = Some (TarGz a)"
    by blast
  with h have content: "docker_build_ctx = TarGz a" by simp
  from h content
  show "build_docker_image c ft work_dir repository_uri base_image run_id w =
        (Inr image,
         w1\<lparr>log := log w1 @
                  [(''=== Building docker image %s ==='', get_docker_image_uri c repository_uri work_dir),
                   (''Temporary docker context file %s was not deleted.'', path_str build_ctx_path)],
            tags := (tags w1)
                  ((run_id, MLFLOW_DOCKER_IMAGE_URI c) \<mapsto> get_docker_image_uri c repository_uri work_dir,
                   (run_id, MLFLOW_DOCKER_IMAGE_ID c) \<mapsto> image_id image)\<rparr>)"
    by (simp add: build_docker_image_def Let_def io_bind_def io_catch_def io_return_def
          io_lift_def open_rb_def os_remove_def logger_info_def set_tag_world
          PROJECT_TAR_ARCHIVE_NAME_def GENERATED_DOCKERFILE_NAME_def)
qed


theorem remove_failure_not_fatal_witness:
  "remove_fault (no_faults\<lparr>remove_fault := True\<rparr>) \<and>
   fst (create_docker_build_ctx (no_faults\<lparr>remove_fault := True\<rparr>) [''proj'']
          (dockerfile_text reference_collaborators ''python:3.8'') example_world)
     = Inr [''tmp'', ''tmpb''] \<and>
   fst (build_docker_image reference_collaborators (no_faults\<lparr>remove_fault := True\<rparr>)
          [''proj''] ''registry/demo'' ''python:3.8'' ''run1'' example_world)
     = Inr \<lparr>image_id = ''sha256:0a1b2c''\<rparr> \<and>
   tags (snd (build_docker_image reference_collaborators (no_faults\<lparr>remove_fault := True\<rparr>)
                [''proj''] ''registry/demo'' ''python:3.8'' ''run1'' example_world))
        (''run1'', ''mlflow.docker.image.uri'') = Some ''registry/demo'' \<and>
   tags (snd (build_docker_image reference_collaborators (no_faults\<lparr>remove_fault := True\<rparr>)
                [''proj''] ''registry/demo'' ''python:3.8'' ''run1'' example_world))
        (''run1'', ''mlflow.docker.image.id'') = Some ''sha256:0a1b2c'' \<and>
   log (snd (build_docker_image reference_collaborators (no_faults\<lparr>remove_fault := True\<rparr>)
               [''proj''] ''registry/demo'' ''python:3.8'' ''run1'' example_world))
     = [(''=== Building docker image %s ==='', ''registry/demo''),
        (''Temporary docker context file %s was not deleted.'', ''/tmp/tmpb'')]"
proof -
  let ?c = reference_collaborators
  let ?ft = "no_faults\<lparr>remove_fault := True\<rparr>"
  let ?ctx = "create_docker_build_ctx ?ft [''proj''] (dockerfile_text ?c ''python:3.8'') example_world"
  let ?run = "build_docker_image ?c ?ft [''proj''] ''registry/demo'' ''python:3.8'' ''run1'' example_world"
  have res: "fst ?ctx = Inr [''tmp'', ''tmpb'']"
    by (simp add: run_defs)
  have nolog: "log (snd ?ctx) = []"
    by (simp add: run_defs)
  from res have ctx: "?ctx = (Inr [''tmp'', ''tmpb''], snd ?ctx)"
    by (metis prod.collapse)
  from build_ctx_stored [OF ctx] obtain a where
    stored: "fs (snd ?ctx) [''tmp'', ''tmpb''] = Some (TarGz a)"
    by blast
  have uri: "get_docker_image_uri ?c ''registry/demo'' [''proj''] = ''registry/demo''"
    by (simp add: get_docker_image_uri_def reference_collaborators_def)
  have built: "images_build ?c (get_docker_image_uri ?c ''registry/demo'' [''proj'']) True
        ''mlflow-project-docker-build-context/Dockerfile.mlflow-autogenerated''
        (TarGz a) True ''gzip'' = Inr \<lparr>image_id = ''sha256:0a1b2c''\<rparr>"
    by (simp add: reference_collaborators_def)
  have flags: "remove_fault ?ft" "\<not> open_fault ?ft" "from_env ?c = Inr ()"
    "\<not> set_tag_fault ?ft (MLFLOW_DOCKER_IMAGE_URI ?c)"
    "\<not> set_tag_fault ?ft (MLFLOW_DOCKER_IMAGE_ID ?c)"
    by (simp_all add: no_faults_def reference_collaborators_def)
  from remove_failure_not_fatal
         [of ?c ?ft "[''proj'']" "''registry/demo''" "''python:3.8''" "''run1''" example_world]
       ctx stored built flags
  have "?run =
        (Inr \<lparr>image_id = ''sha256:0a1b2c''\<rparr>,
         (snd ?ctx)\<lparr>log := log (snd ?ctx) @
                  [(''=== Building docker image %s ==='', get_docker_image_uri ?c ''registry/demo'' [''proj'']),
                   (''Temporary docker context file %s was not deleted.'', path_str [''tmp'', ''tmpb''])],
            tags := (tags (snd ?ctx))
                  ((''run1'', MLFLOW_DOCKER_IMAGE_URI ?c) \<mapsto> get_docker_image_uri ?c ''registry/demo'' [''proj''],
                   (''run1'', MLFLOW_DOCKER_IMAGE_ID ?c) \<mapsto> image_id \<lparr>image_id = ''sha256:0a1b2c''\<rparr>)\<rparr>)"
    by blast
  moreover have "MLFLOW_DOCKER_IMAGE_URI ?c = ''mlflow.docker.image.uri''"
    "MLFLOW_DOCKER_IMAGE_ID ?c = ''mlflow.docker.image.id''"
    by (simp_all add: reference_collaborators_def)
  ultimately show ?thesis
    using res flags(1) by (simp add: uri nolog path_str_def)
qed

end
